theory Spec2Isabelle
  imports Complex_Main "HOL-Library.Word"
begin

section \<open>Values of the program\<close>

text \<open>
  The application keeps every image as a NumPy array of dtype \<open>uint8\<close>, as
  \<open>cv2.imread\<close> returns it and as every handler method returns it. An array is its
  shape tuple and its row-major sample buffer; \<open>255 - image\<close>, \<open>image.copy()\<close>
  and the OpenCV calls all work on that representation. Floating-point intermediates
  never leave a handler method, so they live inside the library entries of the environment
  below.
\<close>

type_synonym uint8 = "8 word"

record ndarray =
  shape :: "nat list"
  data :: "uint8 list"

definition well_formed :: "ndarray \<Rightarrow> bool" where
  "well_formed a = (length (data a) = prod_list (shape a))"

text \<open>
  The values a request can put into \<open>params\<close> (decoded JSON), and the defaults of the
  handler methods: Python ints, floats (as the rational they denote), strings, booleans,
  \<open>None\<close> and lists.
\<close>

datatype pyval =
    IntV int
  | FloatV rat
  | StrV string
  | BoolV bool
  | NoneV
  | ListV "pyval list"

text \<open>Exceptions are values; \<open>str_exn\<close> is Python's \<open>str(e)\<close>.\<close>

datatype exn =
    TypeError string
  | ValueError string
  | AttributeError string
  | IndexError string
  | CvError string

fun str_exn :: "exn \<Rightarrow> string" where
  "str_exn (TypeError m) = m"
| "str_exn (ValueError m) = m"
| "str_exn (AttributeError m) = m"
| "str_exn (IndexError m) = m"
| "str_exn (CvError m) = m"

text \<open>
  What a handler method hands back to its caller: the tuple \<open>(result, description)\<close>,
  or \<open>None\<close> when control falls off the end of the method body.
\<close>

datatype pyret = Tuple ndarray string | NoneRet

text \<open>Sequencing of computations that may raise: the first exception wins.\<close>

definition and_then :: "exn + 'a \<Rightarrow> ('a \<Rightarrow> exn + 'b) \<Rightarrow> exn + 'b" where
  "and_then m f = (case m of Inl e \<Rightarrow> Inl e | Inr x \<Rightarrow> f x)"

section \<open>The environment: OpenCV, NumPy and the interpreter\<close>

text \<open>
  The handler methods are thin wrappers around library calls. The library is not part of
  the repository, so the model takes it as a parameter: a record with one entry per
  library computation, each a function of its arguments that returns an array or raises.
  The state of NumPy's global random generator is a value of the type \<open>'r\<close>; the
  entries that draw from it return the state they leave behind.
  Entries that are simple enough are not parameters but definitions further down
  (\<open>GRAY2BGR\<close>, the structure of \<open>BGR2GRAY\<close>, the five plain threshold types).
\<close>

text \<open>
  A \<open>float32\<close> array, the intermediate of \<open>add_degradation\<close>: every float is the
  rational it denotes.
\<close>

record farray =
  fshape :: "nat list"
  fdata :: "rat list"

record 'r runtime =
  \<comment> \<open>the interpreter: \<open>repr\<close> of a float and of a list, printf-style \<open>%\<close> on a string,
     float division, \<open>dir(object())\<close>, and the text of the \<open>TypeError\<close> raised by
     calling an attribute that is not one of the image methods\<close>
  float_str :: "rat \<Rightarrow> string"
  list_str :: "pyval list \<Rightarrow> string"
  str_format :: "string \<Rightarrow> pyval \<Rightarrow> exn + string"
  float_div :: "rat \<Rightarrow> rat \<Rightarrow> rat"
  object_dir :: "string list"
  inherited_call_error :: "string \<Rightarrow> string"
  \<comment> \<open>\<open>cv2.imencode('.png', a)\<close> followed by \<open>base64.b64encode\<close>\<close>
  png_base64 :: "ndarray \<Rightarrow> exn + string"
  \<comment> \<open>OpenCV: colour conversion and thresholding\<close>
  luma :: "uint8 \<Rightarrow> uint8 \<Rightarrow> uint8 \<Rightarrow> uint8"
  threshold_other :: "ndarray \<Rightarrow> rat \<Rightarrow> rat \<Rightarrow> int \<Rightarrow> exn + ndarray"
  BGR2YCrCb :: "ndarray \<Rightarrow> exn + ndarray"
  YCrCb2BGR :: "ndarray \<Rightarrow> exn + ndarray"
  \<comment> \<open>OpenCV: filters; \<open>unsharp_addWeighted image strength blurred\<close> is
     \<open>cv2.addWeighted(image, 1.0 + strength, blurred, -strength, 0)\<close>\<close>
  convertScaleAbs :: "ndarray \<Rightarrow> pyval \<Rightarrow> pyval \<Rightarrow> exn + ndarray"
  GaussianBlur :: "ndarray \<Rightarrow> pyval \<times> pyval \<Rightarrow> pyval \<Rightarrow> exn + ndarray"
  medianBlur :: "ndarray \<Rightarrow> pyval \<Rightarrow> exn + ndarray"
  bilateralFilter :: "ndarray \<Rightarrow> pyval \<Rightarrow> pyval \<Rightarrow> pyval \<Rightarrow> exn + ndarray"
  equalizeHist :: "ndarray \<Rightarrow> exn + ndarray"
  unsharp_addWeighted :: "ndarray \<Rightarrow> pyval \<Rightarrow> ndarray \<Rightarrow> exn + ndarray"
  \<comment> \<open>the floating-point steps of \<open>retinex\<close>: \<open>np.float32(image) / 255.0\<close>;
     \<open>cv2.split\<close>; \<open>retinex_accumulate acc ch sigma\<close>, the value of \<open>retinex\<close>
     after \<open>retinex += np.log10(ch + 0.01) - np.log10(blur + 0.01)\<close>;
     \<open>retinex_finish acc ch img_float n dynamic\<close>, the division by the number of
     scales, the colour restoration and the normalisation; and \<open>cv2.merge\<close> with the
     conversion to \<open>uint8\<close>\<close>
  float32_unit :: "ndarray \<Rightarrow> farray"
  split_f32 :: "farray \<Rightarrow> exn + farray list"
  retinex_accumulate :: "farray \<Rightarrow> farray \<Rightarrow> pyval \<Rightarrow> exn + farray"
  retinex_finish :: "farray \<Rightarrow> farray \<Rightarrow> farray \<Rightarrow> nat \<Rightarrow> bool \<Rightarrow> exn + farray"
  merge_to_uint8 :: "farray list \<Rightarrow> exn + ndarray"
  \<comment> \<open>CLAHE on the lightness channel of a colour image, and on a grey image\<close>
  clahe_lab :: "ndarray \<Rightarrow> pyval \<Rightarrow> pyval \<Rightarrow> exn + ndarray"
  clahe_apply :: "ndarray \<Rightarrow> pyval \<Rightarrow> pyval \<Rightarrow> exn + ndarray"
  \<comment> \<open>the Fourier steps: the normalised log-magnitude spectrum of a grey image; the
     padded, transformed and shifted spectrum (shape \<open>(R, C, 2)\<close>); and
     \<open>idft_normalized spectrum mask (rows, cols)\<close>, from the product with the stacked mask
     to the normalised inverse transform cropped to \<open>rows\<close> by \<open>cols\<close>\<close>
  dft_magnitude_spectrum :: "ndarray \<Rightarrow> exn + ndarray"
  dft_shift :: "ndarray \<Rightarrow> exn + farray"
  idft_normalized :: "farray \<Rightarrow> uint8 list \<Rightarrow> nat \<times> nat \<Rightarrow> exn + ndarray"
  \<comment> \<open>OpenCV: morphology\<close>
  getStructuringElement :: "nat \<Rightarrow> pyval \<times> pyval \<Rightarrow> exn + ndarray"
  erode :: "ndarray \<Rightarrow> ndarray \<Rightarrow> pyval \<Rightarrow> exn + ndarray"
  dilate :: "ndarray \<Rightarrow> ndarray \<Rightarrow> pyval \<Rightarrow> exn + ndarray"
  morphologyEx :: "ndarray \<Rightarrow> nat \<Rightarrow> ndarray \<Rightarrow> exn + ndarray"
  \<comment> \<open>OpenCV: segmentation and features; \<open>watershed_seeds gray\<close> is the marker
     computation of \<open>watershed\<close> from Otsu's threshold to \<open>markers + 1\<close>, returned
     with the array \<open>unknown\<close>, one label and one sample per pixel; \<open>cv_watershed\<close>
     is the content of \<open>markers\<close> after \<open>cv2.watershed(image, markers)\<close>\<close>
  Canny :: "ndarray \<Rightarrow> pyval \<Rightarrow> pyval \<Rightarrow> pyval \<Rightarrow> exn + ndarray"
  sobel_combined :: "ndarray \<Rightarrow> pyval \<Rightarrow> pyval \<Rightarrow> pyval \<Rightarrow> exn + ndarray"
  watershed_seeds :: "ndarray \<Rightarrow> exn + int list \<times> uint8 list"
  cv_watershed :: "ndarray \<Rightarrow> int list \<Rightarrow> exn + int list"
  findContours :: "ndarray \<Rightarrow> exn + (int \<times> int) list list"
  drawContours :: "ndarray \<Rightarrow> (int \<times> int) list list \<Rightarrow> exn + ndarray"
  orb_draw_keypoints :: "ndarray \<Rightarrow> pyval \<Rightarrow> exn + (ndarray \<times> nat)"
  \<comment> \<open>OpenCV and NumPy: restoration; the two noise entries draw from the generator and
     give the content of \<open>result\<close> after the noise is added in \<open>float32\<close>;
     \<open>gaussian_psf\<close> is the outer product of the Gaussian kernel with itself,
     \<open>normalize_psf\<close> the content of \<open>psf\<close> after \<open>psf /= psf.sum()\<close>, and
     \<open>wiener_restore\<close> the deconvolution from the padding to the normalised result;
     \<open>circle hw mask centre radius colour\<close> is the content of \<open>mask\<close> after
     \<open>cv2.circle(mask, centre, radius, colour, -1)\<close>\<close>
  GaussianBlur_f32 :: "farray \<Rightarrow> pyval \<times> pyval \<Rightarrow> exn + farray"
  add_normal_noise :: "'r \<Rightarrow> farray \<Rightarrow> pyval \<Rightarrow> (exn + farray) \<times> 'r"
  add_speckle_noise :: "'r \<Rightarrow> farray \<Rightarrow> pyval \<Rightarrow> (exn + farray) \<times> 'r"
  gaussian_psf :: "pyval \<Rightarrow> exn + farray"
  normalize_psf :: "farray \<Rightarrow> farray"
  wiener_restore :: "ndarray \<Rightarrow> farray \<Rightarrow> pyval \<Rightarrow> pyval \<Rightarrow> exn + ndarray"
  circle :: "nat \<times> nat \<Rightarrow> uint8 list \<Rightarrow> int \<times> int \<Rightarrow> int \<Rightarrow> uint8 \<Rightarrow> exn + uint8 list"
  inpaint :: "ndarray \<Rightarrow> uint8 list \<Rightarrow> exn + ndarray"
  \<comment> \<open>NumPy's global random generator: \<open>randint rng low high\<close> for \<open>low < high\<close>,
     and \<open>random_sample rng n\<close>, the \<open>n\<close> floats of \<open>np.random.random\<close>\<close>
  randint :: "'r \<Rightarrow> int \<Rightarrow> int \<Rightarrow> int \<times> 'r"
  random_sample :: "'r \<Rightarrow> nat \<Rightarrow> rat list \<times> 'r"

section \<open>Python-level helpers\<close>

definition nl :: string where
  "nl = [CHR 0x0A]"

definition quote :: "string \<Rightarrow> string" where
  "quote s = [CHR 0x27] @ s @ [CHR 0x27]"

fun nat_digits :: "nat \<Rightarrow> string" where
  "nat_digits n =
     (if n < 10 then [char_of (48 + n)]
      else nat_digits (n div 10) @ [char_of (48 + n mod 10)])"

definition str_int :: "int \<Rightarrow> string" where
  "str_int i = (if i < 0 then ''-'' @ nat_digits (nat (- i)) else nat_digits (nat i))"

text \<open>\<open>str(v)\<close>, as an f-string substitutes it.\<close>

definition py_str :: "'r runtime \<Rightarrow> pyval \<Rightarrow> string" where
  "py_str env v =
     (case v of
        IntV i \<Rightarrow> str_int i
      | FloatV r \<Rightarrow> float_str env r
      | StrV s \<Rightarrow> s
      | BoolV b \<Rightarrow> (if b then ''True'' else ''False'')
      | NoneV \<Rightarrow> ''None''
      | ListV vs \<Rightarrow> list_str env vs)"

text \<open>Truth value of a parameter, as \<open>if v\<close> tests it.\<close>

definition truthy :: "pyval \<Rightarrow> bool" where
  "truthy v =
     (case v of
        IntV i \<Rightarrow> i \<noteq> 0
      | FloatV r \<Rightarrow> r \<noteq> 0
      | StrV s \<Rightarrow> s \<noteq> []
      | BoolV b \<Rightarrow> b
      | NoneV \<Rightarrow> False
      | ListV vs \<Rightarrow> vs \<noteq> [])"

definition type_name :: "pyval \<Rightarrow> string" where
  "type_name v =
     (case v of
        IntV _ \<Rightarrow> ''int''
      | FloatV _ \<Rightarrow> ''float''
      | StrV _ \<Rightarrow> ''str''
      | BoolV _ \<Rightarrow> ''bool''
      | NoneV \<Rightarrow> ''NoneType''
      | ListV _ \<Rightarrow> ''list'')"

text \<open>
  The call \<open>method(current_img, **params)\<close>: a keyword that is not a parameter of the
  method raises \<open>TypeError\<close> before the body runs (\<open>self\<close> and \<open>image\<close> are bound
  positionally, so they are refused as keywords too). \<open>arg\<close> reads a parameter, with the
  default of the method's signature when the request leaves it out.
\<close>

definition check_kwargs :: "string \<Rightarrow> string list \<Rightarrow> (string \<times> pyval) list \<Rightarrow> exn + unit" where
  "check_kwargs qualname names kw =
     (case find (\<lambda>k. k \<notin> set names) (map fst kw) of
        None \<Rightarrow> Inr ()
      | Some k \<Rightarrow>
          if k = ''self'' \<or> k = ''image''
          then Inl (TypeError (qualname @ ''() got multiple values for argument '' @ quote k))
          else Inl (TypeError (qualname @ ''() got an unexpected keyword argument '' @ quote k)))"

definition arg :: "(string \<times> pyval) list \<Rightarrow> string \<Rightarrow> pyval \<Rightarrow> pyval" where
  "arg kw name dflt = (case map_of kw name of Some v \<Rightarrow> v | None \<Rightarrow> dflt)"

text \<open>
  \<open>if kernel_size % 2 == 0: kernel_size += 1\<close>, the guard the blurring methods share.
  On an int it is arithmetic (Python's \<open>%\<close> rounds towards minus infinity, as \<open>mod\<close>
  does); \<open>False\<close> counts as 0 and \<open>True\<close> as 1; on a float it is the float remainder
  (rounding of the sum beyond \<open>2^53\<close> is not modelled); on a string \<open>%\<close> is printf-style
  formatting, whose result is never equal to 0; \<open>None\<close> and lists have no \<open>%\<close>.
\<close>

definition ensure_odd :: "'r runtime \<Rightarrow> pyval \<Rightarrow> exn + pyval" where
  "ensure_odd env kernel_size =
     (case kernel_size of
        IntV k \<Rightarrow> Inr (IntV (if k mod 2 = 0 then k + 1 else k))
      | BoolV b \<Rightarrow> Inr (if b then BoolV True else IntV 1)
      | FloatV r \<Rightarrow> Inr (FloatV (if r / 2 = of_int \<lfloor>r / 2\<rfloor> then r + 1 else r))
      | StrV s \<Rightarrow> and_then (str_format env s (IntV 2)) (\<lambda>_. Inr (StrV s))
      | v \<Rightarrow> Inl (TypeError (''unsupported operand type(s) for %: '' @ quote (type_name v)
                 @ '' and '' @ quote ''int'')))"

section \<open>OpenCV entries that are defined rather than assumed\<close>

text \<open>
  \<open>cv2.cvtColor(src, cv2.COLOR_BGR2GRAY)\<close> takes a non-empty array of shape
  \<open>(h, w, 3)\<close> or \<open>(h, w, 4)\<close> and returns one of shape \<open>(h, w)\<close>; each output sample is
  the luma of the pixel's blue, green and red samples. The fixed-point weights are the
  library's, so \<open>luma\<close> is an entry of the environment.
  \<open>cv2.cvtColor(src, cv2.COLOR_GRAY2BGR)\<close> takes shape \<open>(h, w)\<close> or \<open>(h, w, 1)\<close> and
  repeats every sample three times.
\<close>

definition pixel :: "nat \<Rightarrow> uint8 list \<Rightarrow> nat \<Rightarrow> uint8 list" where
  "pixel c buf i = take c (drop (i * c) buf)"

definition luma_px :: "'r runtime \<Rightarrow> uint8 list \<Rightarrow> uint8" where
  "luma_px env p = (case p of b # g # r # _ \<Rightarrow> luma env b g r | _ \<Rightarrow> 0)"

definition cvtColor_BGR2GRAY :: "'r runtime \<Rightarrow> ndarray \<Rightarrow> exn + ndarray" where
  "cvtColor_BGR2GRAY env src =
     (case shape src of
        [h, w, c] \<Rightarrow>
          if (c = 3 \<or> c = 4) \<and> 0 < h * w
          then Inr \<lparr>shape = [h, w],
                    data = map (\<lambda>i. luma_px env (pixel c (data src) i)) [0..<h * w]\<rparr>
          else Inl (CvError ''cvtColor: invalid number of channels in input image'')
      | _ \<Rightarrow> Inl (CvError ''cvtColor: invalid number of channels in input image''))"

definition cvtColor_GRAY2BGR :: "ndarray \<Rightarrow> exn + ndarray" where
  "cvtColor_GRAY2BGR src =
     (case shape src of
        [h, w] \<Rightarrow>
          if 0 < h * w
          then Inr \<lparr>shape = [h, w, 3], data = concat (map (\<lambda>v. [v, v, v]) (data src))\<rparr>
          else Inl (CvError ''cvtColor: empty input image'')
      | [h, w, c] \<Rightarrow>
          if c = 1 \<and> 0 < h * w
          then Inr \<lparr>shape = [h, w, 3], data = concat (map (\<lambda>v. [v, v, v]) (data src))\<rparr>
          else Inl (CvError ''cvtColor: invalid number of channels in input image'')
      | _ \<Rightarrow> Inl (CvError ''cvtColor: invalid number of channels in input image''))"

text \<open>
  \<open>cv2.threshold(src, thresh, maxval, type)\<close> on 8-bit samples. The threshold is
  floored, the maximum is rounded (half to even) and saturated. The five plain types 0 to
  4 (\<open>THRESH_BINARY\<close>, \<open>THRESH_BINARY_INV\<close>, \<open>THRESH_TRUNC\<close>, \<open>THRESH_TOZERO\<close>,
  \<open>THRESH_TOZERO_INV\<close>) are defined sample by sample; every other type value (the
  automatic-threshold flags, or no type at all) is the library's business.
\<close>

definition num_arg :: "string \<Rightarrow> pyval \<Rightarrow> exn + rat" where
  "num_arg name v =
     (case v of
        IntV i \<Rightarrow> Inr (of_int i)
      | FloatV r \<Rightarrow> Inr r
      | _ \<Rightarrow> Inl (TypeError (''Argument '' @ quote name @ '' can not be treated as a double'')))"

definition int_arg :: "string \<Rightarrow> pyval \<Rightarrow> exn + int" where
  "int_arg name v =
     (case v of
        IntV i \<Rightarrow> Inr i
      | _ \<Rightarrow> Inl (TypeError (''Argument '' @ quote name @ '' is required to be an integer'')))"

definition saturate_u8 :: "int \<Rightarrow> uint8" where
  "saturate_u8 v = (if v < 0 then 0 else if 255 < v then 255 else word_of_int v)"

definition cvRound :: "rat \<Rightarrow> int" where
  "cvRound r =
     (let f = \<lfloor>r\<rfloor>; d = r - of_int f
      in if d < 1 / 2 then f
         else if 1 / 2 < d then f + 1
         else if f mod 2 = 0 then f else f + 1)"

definition threshold_px :: "int \<Rightarrow> int \<Rightarrow> int \<Rightarrow> uint8 \<Rightarrow> uint8" where
  "threshold_px ty ithresh imaxval v =
     (if ty = 0 then (if ithresh < uint v then saturate_u8 imaxval else 0)
      else if ty = 1 then (if ithresh < uint v then 0 else saturate_u8 imaxval)
      else if ty = 2 then (if ithresh < uint v then saturate_u8 ithresh else v)
      else if ty = 3 then (if ithresh < uint v then v else 0)
      else (if ithresh < uint v then 0 else v))"

definition cv_threshold ::
  "'r runtime \<Rightarrow> ndarray \<Rightarrow> pyval \<Rightarrow> pyval \<Rightarrow> pyval \<Rightarrow> exn + ndarray" where
  "cv_threshold env src thresh maxval ty =
     and_then (num_arg ''thresh'' thresh) (\<lambda>t.
     and_then (num_arg ''maxval'' maxval) (\<lambda>m.
     and_then (int_arg ''type'' ty) (\<lambda>k.
       if 0 \<le> k \<and> k \<le> 4
       then Inr (src\<lparr>data := map (threshold_px k \<lfloor>t\<rfloor> (cvRound m)) (data src)\<rparr>)
       else threshold_other env src t m k)))"

section \<open>\<open>modules/basic_operations.py\<close>: class \<open>BasicOperations\<close>\<close>

text \<open>
  Every method is modelled with the parameters of its signature. The description is the
  header and the parameter lines of the method's template; the fixed explanatory
  paragraph that follows them in the source holds no parameter and is left out.
\<close>

definition grayscale :: "'r runtime \<Rightarrow> ndarray \<Rightarrow> exn + pyret" where
  "grayscale env img =
     and_then (cvtColor_BGR2GRAY env img) (\<lambda>gray.
     and_then (cvtColor_GRAY2BGR gray) (\<lambda>result.
       Inr (Tuple result (nl @ ''<strong>Grayscale Conversion</strong><br>''))))"

definition negative :: "ndarray \<Rightarrow> exn + pyret" where
  "negative img =
     Inr (Tuple (img\<lparr>data := map (\<lambda>v. 255 - v) (data img)\<rparr>)
               (nl @ ''<strong>Negative Image</strong><br>''))"

definition threshold_type_name :: "pyval \<Rightarrow> string" where
  "threshold_type_name ty =
     (if ty = IntV 0 then ''Binary''
      else if ty = IntV 1 then ''Binary Inverted''
      else if ty = IntV 2 then ''Truncate''
      else if ty = IntV 3 then ''To Zero''
      else if ty = IntV 4 then ''To Zero Inverted''
      else ''Unknown'')"

definition threshold ::
  "'r runtime \<Rightarrow> ndarray \<Rightarrow> pyval \<Rightarrow> pyval \<Rightarrow> pyval \<Rightarrow> exn + pyret" where
  "threshold env img threshold_value max_value threshold_type =
     and_then (if 2 < length (shape img) \<and> shape img ! 2 = 3
               then cvtColor_BGR2GRAY env img else Inr img) (\<lambda>gray.
     and_then (cv_threshold env gray threshold_value max_value threshold_type) (\<lambda>result.
     and_then (if length (shape result) < 3
               then cvtColor_GRAY2BGR result else Inr result) (\<lambda>result.
       Inr (Tuple result
         (nl @ ''<strong>Thresholding ('' @ threshold_type_name threshold_type @ '')</strong><br>''
          @ nl @ ''Threshold value: '' @ py_str env threshold_value @ ''<br>''
          @ nl @ ''Max value: '' @ py_str env max_value @ ''<br><br>'')))))"

definition adjust_brightness :: "'r runtime \<Rightarrow> ndarray \<Rightarrow> pyval \<Rightarrow> exn + pyret" where
  "adjust_brightness env img beta =
     and_then (convertScaleAbs env img (IntV 1) beta) (\<lambda>result.
       Inr (Tuple result
         (nl @ ''<strong>Brightness Adjustment</strong><br>''
          @ nl @ ''Adjustment value: '' @ py_str env beta @ ''<br><br>'')))"

definition adjust_contrast :: "'r runtime \<Rightarrow> ndarray \<Rightarrow> pyval \<Rightarrow> exn + pyret" where
  "adjust_contrast env img alpha =
     and_then (convertScaleAbs env img alpha (IntV 0)) (\<lambda>result.
       Inr (Tuple result
         (nl @ ''<strong>Contrast Adjustment</strong><br>''
          @ nl @ ''Adjustment factor: '' @ py_str env alpha @ ''<br><br>'')))"

definition gaussian_blur :: "'r runtime \<Rightarrow> ndarray \<Rightarrow> pyval \<Rightarrow> pyval \<Rightarrow> exn + pyret" where
  "gaussian_blur env img kernel_size sigma_x =
     and_then (ensure_odd env kernel_size) (\<lambda>kernel_size.
     and_then (GaussianBlur env img (kernel_size, kernel_size) sigma_x) (\<lambda>result.
       Inr (Tuple result
         (nl @ ''<strong>Gaussian Blur</strong><br>''
          @ nl @ ''Kernel size: '' @ py_str env kernel_size @ ''x'' @ py_str env kernel_size @ ''<br>''
          @ nl @ ''Sigma X: '' @ py_str env sigma_x @ ''<br><br>''))))"

definition median_blur :: "'r runtime \<Rightarrow> ndarray \<Rightarrow> pyval \<Rightarrow> exn + pyret" where
  "median_blur env img kernel_size =
     and_then (ensure_odd env kernel_size) (\<lambda>kernel_size.
     and_then (medianBlur env img kernel_size) (\<lambda>result.
       Inr (Tuple result
         (nl @ ''<strong>Median Blur</strong><br>''
          @ nl @ ''Kernel size: '' @ py_str env kernel_size @ ''x'' @ py_str env kernel_size
          @ ''<br><br>''))))"

definition bilateral_filter ::
  "'r runtime \<Rightarrow> ndarray \<Rightarrow> pyval \<Rightarrow> pyval \<Rightarrow> pyval \<Rightarrow> exn + pyret" where
  "bilateral_filter env img d sigma_color sigma_space =
     and_then (bilateralFilter env img d sigma_color sigma_space) (\<lambda>result.
       Inr (Tuple result
         (nl @ ''<strong>Bilateral Filter</strong><br>''
          @ nl @ ''Diameter: '' @ py_str env d @ ''<br>''
          @ nl @ ''Sigma Color: '' @ py_str env sigma_color @ ''<br>''
          @ nl @ ''Sigma Space: '' @ py_str env sigma_space @ ''<br><br>'')))"

text \<open>
  \<open>ycrcb[:,:,0]\<close> reads the first sample of every pixel; the assignment
  \<open>ycrcb[:,:,0] = ...\<close> writes them back, into the array \<open>cvtColor\<close> has just returned.
\<close>

definition channel0 :: "ndarray \<Rightarrow> exn + ndarray" where
  "channel0 a =
     (case shape a of
        [h, w, c] \<Rightarrow>
          Inr \<lparr>shape = [h, w], data = concat (map (\<lambda>i. take 1 (pixel c (data a) i)) [0..<h * w])\<rparr>
      | _ \<Rightarrow> Inl (IndexError ''too many indices for array''))"

definition set_channel0 :: "ndarray \<Rightarrow> ndarray \<Rightarrow> exn + ndarray" where
  "set_channel0 a ch =
     (case shape a of
        [h, w, c] \<Rightarrow>
          if shape ch = [h, w] \<and> length (data ch) = h * w
          then Inr (a\<lparr>data := concat (map (\<lambda>i. (data ch ! i) # drop 1 (pixel c (data a) i))
                                       [0..<h * w])\<rparr>)
          else Inl (ValueError ''could not broadcast input array'')
      | _ \<Rightarrow> Inl (IndexError ''too many indices for array''))"

definition histogram_equalization :: "'r runtime \<Rightarrow> ndarray \<Rightarrow> exn + pyret" where
  "histogram_equalization env img =
     and_then
       (if length (shape img) = 2 then Inr True
        else if length (shape img) < 3 then Inl (IndexError ''tuple index out of range'')
        else Inr (shape img ! 2 = 1)) (\<lambda>is_gray.
     and_then
       (if is_gray
        then and_then (equalizeHist env img) (\<lambda>result.
               if length (shape result) < 3 then cvtColor_GRAY2BGR result else Inr result)
        else and_then (BGR2YCrCb env img) (\<lambda>ycrcb.
             and_then (channel0 ycrcb) (\<lambda>y.
             and_then (equalizeHist env y) (\<lambda>y_eq.
             and_then (set_channel0 ycrcb y_eq) (\<lambda>ycrcb.
               YCrCb2BGR env ycrcb))))) (\<lambda>result.
       Inr (Tuple result (nl @ ''<strong>Histogram Equalization</strong><br>''))))"

definition sharpen :: "'r runtime \<Rightarrow> ndarray \<Rightarrow> pyval \<Rightarrow> pyval \<Rightarrow> exn + pyret" where
  "sharpen env img kernel_size strength =
     and_then (ensure_odd env kernel_size) (\<lambda>kernel_size.
     and_then (GaussianBlur env img (kernel_size, kernel_size) (IntV 0)) (\<lambda>blurred.
     and_then (unsharp_addWeighted env img strength blurred) (\<lambda>unsharp_mask.
       Inr (Tuple unsharp_mask
         (nl @ ''<strong>Unsharp Masking (Sharpening)</strong><br>''
          @ nl @ ''Kernel size: '' @ py_str env kernel_size @ ''<br>''
          @ nl @ ''Strength: '' @ py_str env strength @ ''<br><br>'')))))"

section \<open>\<open>modules/advanced_operations.py\<close>: class \<open>AdvancedOperations\<close>\<close>

text \<open>
  \<open>for sigma in sigma_list\<close>: a list yields its elements and a string its characters;
  the other request values are not iterable.
\<close>

definition py_iter :: "pyval \<Rightarrow> exn + pyval list" where
  "py_iter v =
     (case v of
        ListV vs \<Rightarrow> Inr vs
      | StrV s \<Rightarrow> Inr (map (\<lambda>c. StrV [c]) s)
      | _ \<Rightarrow> Inl (TypeError (quote (type_name v) @ '' object is not iterable'')))"

definition zeros_like :: "farray \<Rightarrow> farray" where
  "zeros_like a = a\<lparr>fdata := replicate (length (fdata a)) 0\<rparr>"

text \<open>The inner loop of \<open>retinex\<close>: every scale is added into \<open>retinex\<close>.\<close>

fun retinex_scales :: "'r runtime \<Rightarrow> farray \<Rightarrow> pyval list \<Rightarrow> farray \<Rightarrow> exn + farray" where
  "retinex_scales env ch [] acc = Inr acc"
| "retinex_scales env ch (sigma # sigmas) acc =
     and_then (retinex_accumulate env acc ch sigma) (retinex_scales env ch sigmas)"

text \<open>The outer loop: one pass per channel of \<open>img_float\<close>.\<close>

fun retinex_channels ::
  "'r runtime \<Rightarrow> farray \<Rightarrow> pyval \<Rightarrow> pyval \<Rightarrow> farray list \<Rightarrow> exn + farray list" where
  "retinex_channels env img_float sigma_list dynamic [] = Inr []"
| "retinex_channels env img_float sigma_list dynamic (ch # chs) =
     and_then (py_iter sigma_list) (\<lambda>sigmas.
     and_then (retinex_scales env ch sigmas (zeros_like ch)) (\<lambda>acc.
     and_then (retinex_finish env acc ch img_float (length sigmas) (truthy dynamic)) (\<lambda>r.
     and_then (retinex_channels env img_float sigma_list dynamic chs) (\<lambda>channels.
       Inr (r # channels)))))"

definition retinex :: "'r runtime \<Rightarrow> ndarray \<Rightarrow> pyval \<Rightarrow> pyval \<Rightarrow> exn + pyret" where
  "retinex env img sigma_list dynamic =
     and_then (split_f32 env (float32_unit env img)) (\<lambda>chs.
     and_then (retinex_channels env (float32_unit env img) sigma_list dynamic chs) (\<lambda>channels.
     and_then (merge_to_uint8 env channels) (\<lambda>result.
       Inr (Tuple result
         (nl @ ''<strong>Multi-Scale Retinex (MSR)</strong><br>''
          @ nl @ ''Sigma values: '' @ py_str env sigma_list @ ''<br>''
          @ nl @ ''Dynamic color restoration: ''
          @ (if truthy dynamic then ''Enabled'' else ''Disabled'') @ ''<br><br>'')))))"

definition clahe :: "'r runtime \<Rightarrow> ndarray \<Rightarrow> pyval \<Rightarrow> pyval \<Rightarrow> exn + pyret" where
  "clahe env img clip_limit tile_grid_size =
     and_then
       (if length (shape img) = 3 \<and> shape img ! 2 = 3
        then clahe_lab env img clip_limit tile_grid_size
        else and_then (clahe_apply env img clip_limit tile_grid_size) (\<lambda>result.
               if length (shape result) < 3 then cvtColor_GRAY2BGR result else Inr result))
       (\<lambda>result.
       Inr (Tuple result
         (nl @ ''<strong>Contrast Limited Adaptive Histogram Equalization (CLAHE)</strong><br>''
          @ nl @ ''Clip Limit: '' @ py_str env clip_limit @ ''<br>''
          @ nl @ ''Tile Grid Size: '' @ py_str env tile_grid_size @ ''x''
          @ py_str env tile_grid_size @ ''<br><br>'')))"

text \<open>\<open>rows, cols = gray.shape\<close> needs a two-dimensional array.\<close>

definition rows_cols :: "ndarray \<Rightarrow> exn + nat \<times> nat" where
  "rows_cols gray =
     (case shape gray of
        [rows, cols] \<Rightarrow> Inr (rows, cols)
      | [] \<Rightarrow> Inl (ValueError ''not enough values to unpack (expected 2, got 0)'')
      | [n] \<Rightarrow> Inl (ValueError ''not enough values to unpack (expected 2, got 1)'')
      | _ \<Rightarrow> Inl (ValueError ''too many values to unpack (expected 2)''))"

definition fourier_transform :: "'r runtime \<Rightarrow> ndarray \<Rightarrow> exn + pyret" where
  "fourier_transform env img =
     and_then (if length (shape img) = 3 then cvtColor_BGR2GRAY env img else Inr img) (\<lambda>gray.
     and_then (rows_cols gray) (\<lambda>_.
     and_then (dft_magnitude_spectrum env gray) (\<lambda>magnitude_spectrum.
     and_then (cvtColor_GRAY2BGR magnitude_spectrum) (\<lambda>result.
       Inr (Tuple result (nl @ ''<strong>Fourier Transform (Magnitude Spectrum)</strong><br>''))))))"

text \<open>
  \<open>filter_type.lower() == 'lowpass'\<close>: only a string has \<open>lower\<close>. Lower-casing the
  ASCII letters decides the comparison, since no other character lower-cases to a letter
  of \<open>lowpass\<close>.
\<close>

definition lower :: "string \<Rightarrow> string" where
  "lower s = map (\<lambda>c. if 65 \<le> (of_char c :: nat) \<and> (of_char c :: nat) \<le> 90
                        then char_of ((of_char c :: nat) + 32) else c) s"

definition is_lowpass :: "pyval \<Rightarrow> exn + bool" where
  "is_lowpass filter_type =
     (case filter_type of
        StrV s \<Rightarrow> Inr (lower s = ''lowpass'')
      | v \<Rightarrow> Inl (AttributeError (quote (type_name v) @ '' object has no attribute ''
                 @ quote ''lower'')))"

text \<open>
  \<open>frequency_filter\<close> computes \<open>result\<close> and \<open>description\<close> like its siblings, and
  its body ends there: it has no \<open>return\<close> statement, so a call that does not raise
  evaluates to \<open>None\<close>. The mask is a fresh array of zeros; \<open>cv2.circle\<close> draws into it,
  and the high-pass branch replaces it by \<open>1 - mask\<close>.
\<close>

definition frequency_filter :: "'r runtime \<Rightarrow> ndarray \<Rightarrow> pyval \<Rightarrow> pyval \<Rightarrow> exn + pyret" where
  "frequency_filter env img filter_type cutoff_freq =
     and_then (if length (shape img) = 3 then cvtColor_BGR2GRAY env img else Inr img) (\<lambda>gray.
     and_then (rows_cols gray) (\<lambda>size.
     and_then (dft_shift env gray) (\<lambda>spectrum.
     and_then (case fshape spectrum of
                 r # c # _ \<Rightarrow> Inr (r, c)
               | _ \<Rightarrow> Inl (IndexError ''tuple index out of range'')) (\<lambda>(r, c).
     and_then (is_lowpass filter_type) (\<lambda>lowpass.
     and_then (int_arg ''radius'' cutoff_freq) (\<lambda>radius.
     and_then (circle env (r, c) (replicate (r * c) 0) (int (c div 2), int (r div 2)) radius 1)
       (\<lambda>msk.
     and_then (idft_normalized env spectrum
                 (if lowpass then msk else map (\<lambda>v. 1 - v) msk) size) (\<lambda>filtered_img.
     and_then (cvtColor_GRAY2BGR filtered_img) (\<lambda>result.
       Inr NoneRet)))))))))"

section \<open>\<open>modules/morphological_operations.py\<close>: class \<open>MorphologicalOperations\<close>\<close>

text \<open>
  \<open>__get_kernel\<close>: the structuring element for a shape name; any other value selects the
  rectangle. The shape codes are \<open>cv2.MORPH_RECT = 0\<close>, \<open>cv2.MORPH_CROSS = 1\<close> and
  \<open>cv2.MORPH_ELLIPSE = 2\<close>.
\<close>

definition get_kernel :: "'r runtime \<Rightarrow> pyval \<Rightarrow> pyval \<Rightarrow> exn + ndarray" where
  "get_kernel env kernel_shape kernel_size =
     (if kernel_shape = StrV ''rect'' then getStructuringElement env 0 (kernel_size, kernel_size)
      else if kernel_shape = StrV ''ellipse'' then getStructuringElement env 2 (kernel_size, kernel_size)
      else if kernel_shape = StrV ''cross'' then getStructuringElement env 1 (kernel_size, kernel_size)
      else getStructuringElement env 0 (kernel_size, kernel_size))"

definition kernel_lines :: "'r runtime \<Rightarrow> pyval \<Rightarrow> pyval \<Rightarrow> string" where
  "kernel_lines env kernel_shape kernel_size =
     nl @ ''Kernel shape: '' @ py_str env kernel_shape @ ''<br>''
     @ nl @ ''Kernel size: '' @ py_str env kernel_size @ ''x'' @ py_str env kernel_size"

definition erosion ::
  "'r runtime \<Rightarrow> ndarray \<Rightarrow> pyval \<Rightarrow> pyval \<Rightarrow> pyval \<Rightarrow> exn + pyret" where
  "erosion env img kernel_size kernel_shape iterations =
     and_then (get_kernel env kernel_shape kernel_size) (\<lambda>kernel.
     and_then (erode env img kernel iterations) (\<lambda>result.
       Inr (Tuple result
         (nl @ ''<strong>Erosion</strong><br>'' @ kernel_lines env kernel_shape kernel_size
          @ ''<br>'' @ nl @ ''Iterations: '' @ py_str env iterations @ ''<br><br>''))))"

definition dilation ::
  "'r runtime \<Rightarrow> ndarray \<Rightarrow> pyval \<Rightarrow> pyval \<Rightarrow> pyval \<Rightarrow> exn + pyret" where
  "dilation env img kernel_size kernel_shape iterations =
     and_then (get_kernel env kernel_shape kernel_size) (\<lambda>kernel.
     and_then (dilate env img kernel iterations) (\<lambda>result.
       Inr (Tuple result
         (nl @ ''<strong>Dilation</strong><br>'' @ kernel_lines env kernel_shape kernel_size
          @ ''<br>'' @ nl @ ''Iterations: '' @ py_str env iterations @ ''<br><br>''))))"

text \<open>
  The five methods built on \<open>cv2.morphologyEx\<close> differ in the operation code
  (\<open>MORPH_OPEN = 2\<close>, \<open>MORPH_CLOSE = 3\<close>, \<open>MORPH_GRADIENT = 4\<close>, \<open>MORPH_TOPHAT = 5\<close>,
  \<open>MORPH_BLACKHAT = 6\<close>) and in the header of the description.
\<close>

definition morphology ::
  "'r runtime \<Rightarrow> nat \<Rightarrow> string \<Rightarrow> ndarray \<Rightarrow> pyval \<Rightarrow> pyval \<Rightarrow> exn + pyret" where
  "morphology env code header img kernel_size kernel_shape =
     and_then (get_kernel env kernel_shape kernel_size) (\<lambda>kernel.
     and_then (morphologyEx env img code kernel) (\<lambda>result.
       Inr (Tuple result
         (nl @ ''<strong>'' @ header @ ''</strong><br>''
          @ kernel_lines env kernel_shape kernel_size @ ''<br><br>''))))"

definition opening_op :: "'r runtime \<Rightarrow> ndarray \<Rightarrow> pyval \<Rightarrow> pyval \<Rightarrow> exn + pyret" where
  "opening_op env = morphology env 2 ''Opening''"

definition closing :: "'r runtime \<Rightarrow> ndarray \<Rightarrow> pyval \<Rightarrow> pyval \<Rightarrow> exn + pyret" where
  "closing env = morphology env 3 ''Closing''"

definition gradient :: "'r runtime \<Rightarrow> ndarray \<Rightarrow> pyval \<Rightarrow> pyval \<Rightarrow> exn + pyret" where
  "gradient env = morphology env 4 ''Morphological Gradient''"

definition top_hat :: "'r runtime \<Rightarrow> ndarray \<Rightarrow> pyval \<Rightarrow> pyval \<Rightarrow> exn + pyret" where
  "top_hat env = morphology env 5 ''Top Hat Transform''"

definition black_hat :: "'r runtime \<Rightarrow> ndarray \<Rightarrow> pyval \<Rightarrow> pyval \<Rightarrow> exn + pyret" where
  "black_hat env = morphology env 6 ''Black Hat Transform''"

section \<open>\<open>modules/segmentation.py\<close>: class \<open>SegmentationOperations\<close>\<close>

text \<open>
  The grey input shared by the methods:
  \<open>if len(image.shape) > 2 and image.shape[2] == 3: gray = cv2.cvtColor(...)\<close>, otherwise
  \<open>gray = image.copy()\<close>.
\<close>

definition to_gray :: "'r runtime \<Rightarrow> ndarray \<Rightarrow> exn + ndarray" where
  "to_gray env img =
     (if 2 < length (shape img) \<and> shape img ! 2 = 3 then cvtColor_BGR2GRAY env img else Inr img)"

definition canny_edge ::
  "'r runtime \<Rightarrow> ndarray \<Rightarrow> pyval \<Rightarrow> pyval \<Rightarrow> pyval \<Rightarrow> exn + pyret" where
  "canny_edge env img threshold1 threshold2 aperture_size =
     and_then (to_gray env img) (\<lambda>gray.
     and_then (Canny env gray threshold1 threshold2 aperture_size) (\<lambda>edges.
     and_then (cvtColor_GRAY2BGR edges) (\<lambda>result.
       Inr (Tuple result
         (nl @ ''<strong>Canny Edge Detection</strong><br>''
          @ nl @ ''Lower Threshold: '' @ py_str env threshold1 @ ''<br>''
          @ nl @ ''Upper Threshold: '' @ py_str env threshold2 @ ''<br>''
          @ nl @ ''Aperture Size: '' @ py_str env aperture_size @ ''<br><br>'')))))"

definition sobel_edge ::
  "'r runtime \<Rightarrow> ndarray \<Rightarrow> pyval \<Rightarrow> pyval \<Rightarrow> pyval \<Rightarrow> exn + pyret" where
  "sobel_edge env img dx dy ksize =
     and_then (to_gray env img) (\<lambda>gray.
     and_then (sobel_combined env gray dx dy ksize) (\<lambda>combined.
     and_then (cvtColor_GRAY2BGR combined) (\<lambda>result.
       Inr (Tuple result
         (nl @ ''<strong>Sobel Edge Detection</strong><br>''
          @ nl @ ''X derivative order: '' @ py_str env dx @ ''<br>''
          @ nl @ ''Y derivative order: '' @ py_str env dy @ ''<br>''
          @ nl @ ''Kernel size: '' @ py_str env ksize @ ''<br><br>'')))))"

text \<open>
  \<open>result[mask] = colour\<close> on an array of shape \<open>(h, w, c)\<close> with a boolean mask of
  shape \<open>(h, w)\<close>: every selected pixel becomes the colour.
\<close>

definition paint :: "ndarray \<Rightarrow> bool list \<Rightarrow> uint8 list \<Rightarrow> exn + ndarray" where
  "paint a msk colour =
     (case shape a of
        [h, w, c] \<Rightarrow>
          if length msk \<noteq> h * w
          then Inl (IndexError ''boolean index did not match indexed array'')
          else if length colour \<noteq> c
          then Inl (ValueError ''shape mismatch: value array could not be broadcast'')
          else Inr (a\<lparr>data := concat (map (\<lambda>i. if msk ! i then colour else pixel c (data a) i)
                                          [0..<h * w])\<rparr>)
      | _ \<Rightarrow> Inl (ValueError ''shape mismatch: value array could not be broadcast''))"

text \<open>
  The colour table of \<open>watershed\<close>: one triple of \<open>np.random.randint(0, 256)\<close> draws
  per label, in label order; every draw advances the generator.
\<close>

fun draw_colors :: "'r runtime \<Rightarrow> 'r \<Rightarrow> nat \<Rightarrow> uint8 list list \<times> 'r" where
  "draw_colors env rng 0 = ([], rng)"
| "draw_colors env rng (Suc n) =
     (let (c0, rng1) = randint env rng 0 256;
          (c1, rng2) = randint env rng1 0 256;
          (c2, rng3) = randint env rng2 0 256;
          (cs, rng4) = draw_colors env rng3 n
      in ([word_of_int c0, word_of_int c1, word_of_int c2] # cs, rng4))"

fun paint_segments ::
  "int list \<Rightarrow> uint8 list list \<Rightarrow> nat list \<Rightarrow> ndarray \<Rightarrow> exn + ndarray" where
  "paint_segments markers colors [] result = Inr result"
| "paint_segments markers colors (i # labels) result =
     and_then (paint result (map (\<lambda>m. m = int i) markers) (colors ! i))
       (paint_segments markers colors labels)"

text \<open>\<open>markers[unknown == 255] = 0\<close>, on the marker array just computed.\<close>

definition clear_unknown :: "int list \<Rightarrow> uint8 list \<Rightarrow> exn + int list" where
  "clear_unknown markers unknown =
     (if length unknown = length markers
      then Inr (map (\<lambda>(m, u). if u = 255 then 0 else m) (zip markers unknown))
      else Inl (IndexError ''boolean index did not match indexed array''))"

definition watershed :: "'r runtime \<Rightarrow> 'r \<Rightarrow> ndarray \<Rightarrow> (exn + pyret) \<times> 'r" where
  "watershed env rng img =
     (case and_then
             (if 2 < length (shape img) \<and> shape img ! 2 = 3
              then and_then (cvtColor_BGR2GRAY env img) (\<lambda>gray. Inr (gray, img))
              else if length (shape img) < 3
              then and_then (cvtColor_GRAY2BGR img) (\<lambda>gray_3ch. Inr (img, gray_3ch))
              else Inr (img, img)) (\<lambda>(gray, img3).
           and_then (watershed_seeds env gray) (\<lambda>(markers, unknown).
           and_then (clear_unknown markers unknown) (\<lambda>markers.
           and_then (cv_watershed env img3 markers) (\<lambda>markers.
             Inr (img3, markers))))) of
        Inl e \<Rightarrow> (Inl e, rng)
      | Inr (img3, []) \<Rightarrow>
          (Inl (ValueError ''zero-size array to reduction operation maximum''), rng)
      | Inr (img3, m # ms) \<Rightarrow>
          (let markers = m # ms;
               max_labels = fold max ms m;
               (colors, rng') = draw_colors env rng (nat (max_labels + 1))
           in (and_then (paint_segments markers colors [2..<nat (max_labels + 1)] img3)
                 (\<lambda>result.
               and_then (paint result (map (\<lambda>m. m = - 1) markers) [0, 0, 255])
                 (\<lambda>result.
                 Inr (Tuple result (nl @ ''<strong>Watershed Segmentation</strong><br>'')))),
               rng')))"

definition contour_detection ::
  "'r runtime \<Rightarrow> ndarray \<Rightarrow> pyval \<Rightarrow> pyval \<Rightarrow> exn + pyret" where
  "contour_detection env img threshold_min threshold_max =
     and_then (to_gray env img) (\<lambda>gray.
     and_then (cv_threshold env gray threshold_min threshold_max (IntV 0)) (\<lambda>thresh.
     and_then (findContours env thresh) (\<lambda>contours.
     and_then (if length (shape img) = 3 then Inr img else cvtColor_GRAY2BGR img) (\<lambda>result.
     and_then (drawContours env result contours) (\<lambda>result.
       Inr (Tuple result
         (nl @ ''<strong>Contour Detection</strong><br>''
          @ nl @ ''Threshold Min: '' @ py_str env threshold_min @ ''<br>''
          @ nl @ ''Threshold Max: '' @ py_str env threshold_max @ ''<br>''
          @ nl @ ''Number of contours found: '' @ str_int (int (length contours))
          @ ''<br><br>'')))))))"

definition orb_keypoints :: "'r runtime \<Rightarrow> ndarray \<Rightarrow> pyval \<Rightarrow> exn + pyret" where
  "orb_keypoints env img n_features =
     and_then (orb_draw_keypoints env img n_features) (\<lambda>(result, n_keypoints).
       Inr (Tuple result
         (nl @ ''<strong>ORB Keypoint Detection</strong><br>''
          @ nl @ ''Maximum Features: '' @ py_str env n_features @ ''<br>''
          @ nl @ ''Keypoints found: '' @ str_int (int n_keypoints) @ ''<br><br>'')))"

section \<open>\<open>modules/restoration.py\<close>: class \<open>RestorationOperations\<close>\<close>

text \<open>\<open>blur_size > 0\<close>, and \<open>noise_param / 100.0\<close>, on a request value.\<close>

definition py_positive :: "pyval \<Rightarrow> exn + bool" where
  "py_positive v =
     (case v of
        IntV i \<Rightarrow> Inr (0 < i)
      | FloatV r \<Rightarrow> Inr (0 < r)
      | BoolV b \<Rightarrow> Inr b
      | _ \<Rightarrow> Inl (TypeError (quote ''>'' @ '' not supported between instances of ''
                 @ quote (type_name v) @ '' and '' @ quote ''int'')))"

definition py_div_float :: "'r runtime \<Rightarrow> pyval \<Rightarrow> rat \<Rightarrow> exn + rat" where
  "py_div_float env v d =
     (case v of
        IntV i \<Rightarrow> Inr (float_div env (of_int i) d)
      | FloatV r \<Rightarrow> Inr (float_div env r d)
      | BoolV b \<Rightarrow> Inr (float_div env (if b then 1 else 0) d)
      | _ \<Rightarrow> Inl (TypeError (''unsupported operand type(s) for /: '' @ quote (type_name v)
                 @ '' and '' @ quote ''float'')))"

text \<open>
  \<open>result[mask] = v\<close> on the \<open>float32\<close> array, with a mask over the first two axes:
  every sample of a selected pixel becomes \<open>v\<close>.
\<close>

definition set_masked :: "nat \<Rightarrow> bool list \<Rightarrow> rat \<Rightarrow> rat list \<Rightarrow> rat list" where
  "set_masked psize msk v buf =
     concat (map (\<lambda>(i, m). if m then replicate psize v else take psize (drop (i * psize) buf))
               (zip [0..<length msk] msk))"

definition salt_pepper :: "'r runtime \<Rightarrow> 'r \<Rightarrow> farray \<Rightarrow> rat \<Rightarrow> farray \<times> 'r" where
  "salt_pepper env rng result amount =
     (let n = prod_list (take 2 (fshape result));
          psize = prod_list (drop 2 (fshape result));
          (us, rng1) = random_sample env rng n;
          salted = set_masked psize (map (\<lambda>u. u < float_div env amount 2) us) 255 (fdata result);
          (vs, rng2) = random_sample env rng1 n;
          peppered = set_masked psize (map (\<lambda>u. u < float_div env amount 2) vs) 0 salted
      in (result\<lparr>fdata := peppered\<rparr>, rng2))"

definition clip_uint8 :: "farray \<Rightarrow> ndarray" where
  "clip_uint8 a =
     \<lparr>shape = fshape a, data = map (\<lambda>r. word_of_int \<lfloor>max 0 (min 255 r)\<rfloor>) (fdata a)\<rparr>"


definition wiener_deconvolution ::
  "'r runtime \<Rightarrow> ndarray \<Rightarrow> pyval \<Rightarrow> pyval \<Rightarrow> exn + pyret" where
  "wiener_deconvolution env img psf_size noise_power =
     and_then (to_gray env img) (\<lambda>gray.
     and_then (gaussian_psf env psf_size) (\<lambda>psf.
     and_then (wiener_restore env gray (normalize_psf env psf) psf_size noise_power) (\<lambda>result.
     and_then (cvtColor_GRAY2BGR result) (\<lambda>result_3ch.
       Inr (Tuple result_3ch
         (nl @ ''<strong>Wiener Deconvolution</strong><br>''
          @ nl @ ''PSF size: '' @ py_str env psf_size @ ''x'' @ py_str env psf_size @ ''<br>''
          @ nl @ ''Noise power: '' @ py_str env noise_power @ ''<br><br>''))))))"

text \<open>
  \<open>np.random.randint(low, high)\<close> raises \<open>ValueError\<close> unless \<open>low < high\<close>, and
  advances the generator otherwise.
\<close>

definition np_randint :: "'r runtime \<Rightarrow> 'r \<Rightarrow> int \<Rightarrow> int \<Rightarrow> (exn + int) \<times> 'r" where
  "np_randint env rng low high =
     (if low < high then (let (v, rng') = randint env rng low high in (Inr v, rng'))
      else (Inl (ValueError ''low >= high''), rng))"

text \<open>
  The loop of \<open>inpainting\<close> that damages the mask: \<open>count\<close> iterations, each drawing a
  centre and filling a circle of value 255 around it.
\<close>

fun damage_mask ::
  "'r runtime \<Rightarrow> nat \<Rightarrow> pyval \<Rightarrow> nat \<times> nat \<Rightarrow> 'r \<Rightarrow> uint8 list \<Rightarrow> (exn + uint8 list) \<times> 'r" where
  "damage_mask env 0 mask_radius hw rng msk = (Inr msk, rng)"
| "damage_mask env (Suc count) mask_radius hw rng msk =
     (case int_arg ''low'' mask_radius of
        Inl e \<Rightarrow> (Inl e, rng)
      | Inr radius \<Rightarrow>
          (case np_randint env rng radius (int (snd hw) - radius) of
             (Inl e, rng1) \<Rightarrow> (Inl e, rng1)
           | (Inr x, rng1) \<Rightarrow>
               (case np_randint env rng1 radius (int (fst hw) - radius) of
                  (Inl e, rng2) \<Rightarrow> (Inl e, rng2)
                | (Inr y, rng2) \<Rightarrow>
                    (case circle env hw msk (x, y) radius 255 of
                       Inl e \<Rightarrow> (Inl e, rng2)
                     | Inr msk' \<Rightarrow> damage_mask env count mask_radius hw rng2 msk'))))"

text \<open>\<open>np.hstack\<close> of two arrays of shape \<open>(h, w, c)\<close>: row by row, side by side.\<close>

definition hstack :: "ndarray \<Rightarrow> ndarray \<Rightarrow> exn + ndarray" where
  "hstack a b =
     (case (shape a, shape b) of
        ([h, w, c], [h', w', c']) \<Rightarrow>
          if h = h' \<and> c = c'
          then Inr \<lparr>shape = [h, w + w', c],
                    data = concat (map (\<lambda>i. take (w * c) (drop (i * (w * c)) (data a))
                                             @ take (w' * c) (drop (i * (w' * c)) (data b)))
                                     [0..<h])\<rparr>
          else Inl (ValueError ''all the input array dimensions except for the concatenation axis must match exactly'')
      | _ \<Rightarrow> Inl (ValueError ''all the input arrays must have same number of dimensions''))"

definition inpainting ::
  "'r runtime \<Rightarrow> 'r \<Rightarrow> ndarray \<Rightarrow> pyval \<Rightarrow> pyval \<Rightarrow> (exn + pyret) \<times> 'r" where
  "inpainting env rng img mask_radius num_points =
     (case shape img of
        h # w # _ \<Rightarrow>
          (case (case num_points of
                   IntV n \<Rightarrow> Inr (nat n)
                 | BoolV b \<Rightarrow> Inr (if b then 1 else 0)
                 | v \<Rightarrow> Inl (TypeError (quote (type_name v)
                            @ '' object cannot be interpreted as an integer''))) of
             Inl e \<Rightarrow> (Inl e, rng)
           | Inr count \<Rightarrow>
               (case damage_mask env count mask_radius (h, w) rng (replicate (h * w) 0) of
                  (Inl e, rng') \<Rightarrow> (Inl e, rng')
                | (Inr msk, rng') \<Rightarrow>
                    (and_then (paint img (map (\<lambda>v. v = 255) msk) [0, 0, 255]) (\<lambda>damaged.
                     and_then (inpaint env img msk) (\<lambda>result.
                     and_then (hstack damaged result) (\<lambda>display.
                       Inr (Tuple display
                         (nl @ ''<strong>Image Inpainting</strong><br>''
                          @ nl @ ''Mask radius: '' @ py_str env mask_radius @ ''<br>''
                          @ nl @ ''Number of damaged areas: '' @ py_str env num_points
                          @ ''<br><br>''))))),
                     rng')))
      | _ \<Rightarrow> (Inl (ValueError (''not enough values to unpack (expected 2, got ''
                   @ str_int (int (length (shape img))) @ '')'')), rng))"

section \<open>\<open>app.py\<close>: dispatch by reflection\<close>

text \<open>
  \<open>process_image\<close> finds the handler of an operation with \<open>op_type in dir(handler)\<close>
  and calls \<open>getattr(handler, op_type)(current_img, **params)\<close>. \<open>dir\<close> of a handler
  object lists the methods of its class, the entries every class statement creates
  (\<open>__dict__\<close>, \<open>__doc__\<close>, \<open>__module__\<close>, \<open>__weakref__\<close>; each handler class has a
  docstring) and whatever \<open>object\<close> provides, which depends on the interpreter and is an
  entry of the environment. The private helper \<open>__get_kernel\<close> of
  \<open>MorphologicalOperations\<close> is listed under its mangled name.
\<close>

definition basic_methods :: "string list" where
  "basic_methods =
     [''grayscale'', ''negative'', ''threshold'', ''adjust_brightness'', ''adjust_contrast'',
      ''gaussian_blur'', ''median_blur'', ''bilateral_filter'', ''histogram_equalization'',
      ''sharpen'']"

definition advanced_methods :: "string list" where
  "advanced_methods = [''retinex'', ''clahe'', ''fourier_transform'', ''frequency_filter'']"

definition morphological_methods :: "string list" where
  "morphological_methods =
     [''erosion'', ''dilation'', ''opening'', ''closing'', ''gradient'', ''top_hat'',
      ''black_hat'']"

definition segmentation_methods :: "string list" where
  "segmentation_methods =
     [''canny_edge'', ''sobel_edge'', ''watershed'', ''contour_detection'', ''orb_keypoints'']"

definition class_attrs :: "string list" where
  "class_attrs = [''__dict__'', ''__doc__'', ''__module__'', ''__weakref__'']"

datatype handler = Basic | Advanced | Morphological | Segmentation

definition dir_of :: "'r runtime \<Rightarrow> handler \<Rightarrow> string list" where
  "dir_of env h =
     (case h of
        Basic \<Rightarrow> basic_methods
      | Advanced \<Rightarrow> advanced_methods
      | Morphological \<Rightarrow> ''_MorphologicalOperations__get_kernel'' # morphological_methods
      | Segmentation \<Rightarrow> segmentation_methods)
     @ class_attrs @ object_dir env"

text \<open>
  Calling an attribute that is not an image method raises \<open>TypeError\<close>: the docstring and
  the module name are strings, \<open>__dict__\<close> is a dict and \<open>__weakref__\<close> is \<open>None\<close>, and
  none of them is callable; the slots inherited from \<open>object\<close> and the kernel helper do
  not accept an image as their argument, or return something that is not a pair of an image
  and a text, so the stage fails inside the \<open>try\<close> block all the same (the text of that
  error is the interpreter's).
\<close>

definition call_other :: "'r runtime \<Rightarrow> string \<Rightarrow> exn + pyret" where
  "call_other env name =
     Inl (TypeError
       (if name = ''__doc__'' \<or> name = ''__module__'' then quote ''str'' @ '' object is not callable''
        else if name = ''__dict__'' then quote ''dict'' @ '' object is not callable''
        else if name = ''__weakref__'' then quote ''NoneType'' @ '' object is not callable''
        else inherited_call_error env name))"

definition call_basic ::
  "'r runtime \<Rightarrow> string \<Rightarrow> ndarray \<Rightarrow> (string \<times> pyval) list \<Rightarrow> exn + pyret" where
  "call_basic env name img kw =
     (if name = ''grayscale''
      then and_then (check_kwargs ''BasicOperations.grayscale'' [] kw) (\<lambda>_. grayscale env img)
      else if name = ''negative''
      then and_then (check_kwargs ''BasicOperations.negative'' [] kw) (\<lambda>_. negative img)
      else if name = ''threshold''
      then and_then (check_kwargs ''BasicOperations.threshold''
                       [''threshold_value'', ''max_value'', ''threshold_type''] kw) (\<lambda>_.
             threshold env img (arg kw ''threshold_value'' (IntV 127))
               (arg kw ''max_value'' (IntV 255)) (arg kw ''threshold_type'' (IntV 0)))
      else if name = ''adjust_brightness''
      then and_then (check_kwargs ''BasicOperations.adjust_brightness'' [''beta''] kw) (\<lambda>_.
             adjust_brightness env img (arg kw ''beta'' (IntV 50)))
      else if name = ''adjust_contrast''
      then and_then (check_kwargs ''BasicOperations.adjust_contrast'' [''alpha''] kw) (\<lambda>_.
             adjust_contrast env img (arg kw ''alpha'' (FloatV (3 / 2))))
      else if name = ''gaussian_blur''
      then and_then (check_kwargs ''BasicOperations.gaussian_blur''
                       [''kernel_size'', ''sigma_x''] kw) (\<lambda>_.
             gaussian_blur env img (arg kw ''kernel_size'' (IntV 5)) (arg kw ''sigma_x'' (IntV 0)))
      else if name = ''median_blur''
      then and_then (check_kwargs ''BasicOperations.median_blur'' [''kernel_size''] kw) (\<lambda>_.
             median_blur env img (arg kw ''kernel_size'' (IntV 5)))
      else if name = ''bilateral_filter''
      then and_then (check_kwargs ''BasicOperations.bilateral_filter''
                       [''d'', ''sigma_color'', ''sigma_space''] kw) (\<lambda>_.
             bilateral_filter env img (arg kw ''d'' (IntV 9)) (arg kw ''sigma_color'' (IntV 75))
               (arg kw ''sigma_space'' (IntV 75)))
      else if name = ''histogram_equalization''
      then and_then (check_kwargs ''BasicOperations.histogram_equalization'' [] kw) (\<lambda>_.
             histogram_equalization env img)
      else if name = ''sharpen''
      then and_then (check_kwargs ''BasicOperations.sharpen'' [''kernel_size'', ''strength''] kw)
             (\<lambda>_. sharpen env img (arg kw ''kernel_size'' (IntV 3)) (arg kw ''strength'' (FloatV 1)))
      else call_other env name)"

definition call_advanced ::
  "'r runtime \<Rightarrow> string \<Rightarrow> ndarray \<Rightarrow> (string \<times> pyval) list \<Rightarrow> exn + pyret" where
  "call_advanced env name img kw =
     (if name = ''retinex''
      then and_then (check_kwargs ''AdvancedOperations.retinex'' [''sigma_list'', ''dynamic''] kw)
             (\<lambda>_. retinex env img (arg kw ''sigma_list'' (ListV [IntV 15, IntV 80, IntV 250]))
                     (arg kw ''dynamic'' (BoolV False)))
      else if name = ''clahe''
      then and_then (check_kwargs ''AdvancedOperations.clahe''
                       [''clip_limit'', ''tile_grid_size''] kw) (\<lambda>_.
             clahe env img (arg kw ''clip_limit'' (FloatV 2)) (arg kw ''tile_grid_size'' (IntV 8)))
      else if name = ''fourier_transform''
      then and_then (check_kwargs ''AdvancedOperations.fourier_transform'' [] kw) (\<lambda>_.
             fourier_transform env img)
      else if name = ''frequency_filter''
      then and_then (check_kwargs ''AdvancedOperations.frequency_filter''
                       [''filter_type'', ''cutoff_freq''] kw) (\<lambda>_.
             frequency_filter env img (arg kw ''filter_type'' (StrV ''lowpass''))
               (arg kw ''cutoff_freq'' (IntV 30)))
      else call_other env name)"

definition call_morphological ::
  "'r runtime \<Rightarrow> string \<Rightarrow> ndarray \<Rightarrow> (string \<times> pyval) list \<Rightarrow> exn + pyret" where
  "call_morphological env name img kw =
     (if name = ''erosion''
      then and_then (check_kwargs ''MorphologicalOperations.erosion''
                       [''kernel_size'', ''kernel_shape'', ''iterations''] kw) (\<lambda>_.
             erosion env img (arg kw ''kernel_size'' (IntV 5))
               (arg kw ''kernel_shape'' (StrV ''rect'')) (arg kw ''iterations'' (IntV 1)))
      else if name = ''dilation''
      then and_then (check_kwargs ''MorphologicalOperations.dilation''
                       [''kernel_size'', ''kernel_shape'', ''iterations''] kw) (\<lambda>_.
             dilation env img (arg kw ''kernel_size'' (IntV 5))
               (arg kw ''kernel_shape'' (StrV ''rect'')) (arg kw ''iterations'' (IntV 1)))
      else if name = ''opening''
      then and_then (check_kwargs ''MorphologicalOperations.opening''
                       [''kernel_size'', ''kernel_shape''] kw) (\<lambda>_.
             opening_op env img (arg kw ''kernel_size'' (IntV 5))
               (arg kw ''kernel_shape'' (StrV ''rect'')))
      else if name = ''closing''
      then and_then (check_kwargs ''MorphologicalOperations.closing''
                       [''kernel_size'', ''kernel_shape''] kw) (\<lambda>_.
             closing env img (arg kw ''kernel_size'' (IntV 5))
               (arg kw ''kernel_shape'' (StrV ''rect'')))
      else if name = ''gradient''
      then and_then (check_kwargs ''MorphologicalOperations.gradient''
                       [''kernel_size'', ''kernel_shape''] kw) (\<lambda>_.
             gradient env img (arg kw ''kernel_size'' (IntV 5))
               (arg kw ''kernel_shape'' (StrV ''rect'')))
      else if name = ''top_hat''
      then and_then (check_kwargs ''MorphologicalOperations.top_hat''
                       [''kernel_size'', ''kernel_shape''] kw) (\<lambda>_.
             top_hat env img (arg kw ''kernel_size'' (IntV 9))
               (arg kw ''kernel_shape'' (StrV ''rect'')))
      else if name = ''black_hat''
      then and_then (check_kwargs ''MorphologicalOperations.black_hat''
                       [''kernel_size'', ''kernel_shape''] kw) (\<lambda>_.
             black_hat env img (arg kw ''kernel_size'' (IntV 9))
               (arg kw ''kernel_shape'' (StrV ''rect'')))
      else call_other env name)"

definition call_segmentation ::
  "'r runtime \<Rightarrow> 'r \<Rightarrow> string \<Rightarrow> ndarray \<Rightarrow> (string \<times> pyval) list \<Rightarrow> (exn + pyret) \<times> 'r" where
  "call_segmentation env rng name img kw =
     (if name = ''canny_edge''
      then (and_then (check_kwargs ''SegmentationOperations.canny_edge''
                        [''threshold1'', ''threshold2'', ''aperture_size''] kw) (\<lambda>_.
              canny_edge env img (arg kw ''threshold1'' (IntV 100))
                (arg kw ''threshold2'' (IntV 200)) (arg kw ''aperture_size'' (IntV 3))), rng)
      else if name = ''sobel_edge''
      then (and_then (check_kwargs ''SegmentationOperations.sobel_edge''
                        [''dx'', ''dy'', ''ksize''] kw) (\<lambda>_.
              sobel_edge env img (arg kw ''dx'' (IntV 1)) (arg kw ''dy'' (IntV 1))
                (arg kw ''ksize'' (IntV 3))), rng)
      else if name = ''watershed''
      then (case check_kwargs ''SegmentationOperations.watershed'' [] kw of
              Inl e \<Rightarrow> (Inl e, rng)
            | Inr _ \<Rightarrow> watershed env rng img)
      else if name = ''contour_detection''
      then (and_then (check_kwargs ''SegmentationOperations.contour_detection''
                        [''threshold_min'', ''threshold_max''] kw) (\<lambda>_.
              contour_detection env img (arg kw ''threshold_min'' (IntV 127))
                (arg kw ''threshold_max'' (IntV 255))), rng)
      else if name = ''orb_keypoints''
      then (and_then (check_kwargs ''SegmentationOperations.orb_keypoints'' [''n_features''] kw)
              (\<lambda>_. orb_keypoints env img (arg kw ''n_features'' (IntV 500))), rng)
      else (call_other env name, rng))"

definition getattr_call ::
  "'r runtime \<Rightarrow> 'r \<Rightarrow> handler \<Rightarrow> string \<Rightarrow> ndarray \<Rightarrow> (string \<times> pyval) list
     \<Rightarrow> (exn + pyret) \<times> 'r" where
  "getattr_call env rng h name img kw =
     (case h of
        Basic \<Rightarrow> (call_basic env name img kw, rng)
      | Advanced \<Rightarrow> (call_advanced env name img kw, rng)
      | Morphological \<Rightarrow> (call_morphological env name img kw, rng)
      | Segmentation \<Rightarrow> call_segmentation env rng name img kw)"

section \<open>\<open>app.py\<close>: \<open>process_image\<close>\<close>

text \<open>
  One element of the request's \<open>operations\<close> list: \<open>op.get('type')\<close> (\<open>None\<close> when the
  key is missing) and \<open>op.get('params', {})\<close>, a dict with string keys.
\<close>

record request_op =
  op_type :: pyval
  params :: "(string \<times> pyval) list"

text \<open>One element of \<open>results\<close>, and the two kinds of response.\<close>

record entry =
  operation :: string
  image_b64 :: string
  description :: string
  width :: nat
  height :: nat

datatype response = Success "entry list" | Failure nat string

text \<open>The \<open>if\<close>/\<open>elif\<close> chain over the four handler objects; \<open>None\<close> is its \<open>else\<close>.\<close>

definition resolve :: "'r runtime \<Rightarrow> pyval \<Rightarrow> (handler \<times> string) option" where
  "resolve env t =
     (case t of
        StrV name \<Rightarrow>
          if name \<in> set (dir_of env Basic) then Some (Basic, name)
          else if name \<in> set (dir_of env Advanced) then Some (Advanced, name)
          else if name \<in> set (dir_of env Morphological) then Some (Morphological, name)
          else if name \<in> set (dir_of env Segmentation) then Some (Segmentation, name)
          else None
      | _ \<Rightarrow> None)"

text \<open>
  The body of the \<open>try\<close> block for a resolved operation: the call, the unpacking of its
  value into \<open>processed, description\<close> (which raises on \<open>None\<close>), the encoding, and the
  entry with \<open>processed.shape[1]\<close> and \<open>processed.shape[0]\<close>.
\<close>

definition run_stage ::
  "'r runtime \<Rightarrow> 'r \<Rightarrow> handler \<Rightarrow> string \<Rightarrow> ndarray \<Rightarrow> (string \<times> pyval) list
     \<Rightarrow> (exn + entry \<times> ndarray) \<times> 'r" where
  "run_stage env rng h name current_img kw =
     (let (ret, rng') = getattr_call env rng h name current_img kw
      in (and_then ret (\<lambda>v.
            case v of
              NoneRet \<Rightarrow> Inl (TypeError ''cannot unpack non-iterable NoneType object'')
            | Tuple processed descr \<Rightarrow>
                and_then (png_base64 env processed) (\<lambda>img_base64.
                  if length (shape processed) < 2
                  then Inl (IndexError ''tuple index out of range'')
                  else Inr (\<lparr>operation = name, image_b64 = img_base64, description = descr,
                             width = shape processed ! 1, height = shape processed ! 0\<rparr>,
                            processed))),
          rng'))"

text \<open>
  The loop over the operations. Besides the response it returns the state the random
  generator is left in and, as bookkeeping of the model, the operation types whose
  attribute was called, in order, and the value of \<open>current_img\<close> when the loop was
  left.
\<close>

record 'r run =
  response :: response
  rng_after :: 'r
  invoked :: "string list"
  working :: ndarray

fun run_ops ::
  "'r runtime \<Rightarrow> 'r \<Rightarrow> entry list \<Rightarrow> ndarray \<Rightarrow> string list \<Rightarrow> request_op list \<Rightarrow> 'r run" where
  "run_ops env rng results current_img calls [] =
     \<lparr>response = Success results, rng_after = rng, invoked = calls, working = current_img\<rparr>"
| "run_ops env rng results current_img calls (op # ops) =
     (case resolve env (op_type op) of
        None \<Rightarrow>
          \<lparr>response = Failure 400 (''Unknown operation: '' @ py_str env (op_type op)),
           rng_after = rng, invoked = calls, working = current_img\<rparr>
      | Some (h, name) \<Rightarrow>
          (case run_stage env rng h name current_img (params op) of
             (Inl e, rng') \<Rightarrow>
               \<lparr>response = Failure 500 (''Error in operation '' @ name @ '': '' @ str_exn e),
                rng_after = rng', invoked = calls @ [name], working = current_img\<rparr>
           | (Inr (result, processed), rng') \<Rightarrow>
               run_ops env rng' (results @ [result]) processed (calls @ [name]) ops))"

text \<open>
  \<open>process_image\<close>, from the point where the uploaded image has been read:
  \<open>results = []\<close>, \<open>current_img = img.copy()\<close>, then the loop.
\<close>

definition process_image :: "'r runtime \<Rightarrow> 'r \<Rightarrow> ndarray \<Rightarrow> request_op list \<Rightarrow> 'r run" where
  "process_image env rng img operations = run_ops env rng [] img [] operations"

text \<open>
  \<open>get_available_operations\<close> lists, for each handler, the names of \<open>dir\<close> that do not
  start with an underscore.
\<close>

definition available_operations :: "'r runtime \<Rightarrow> handler \<Rightarrow> string list" where
  "available_operations env h = filter (\<lambda>m. take 1 m \<noteq> ''_'') (dir_of env h)"

section \<open>Arrays as objects\<close>

text \<open>
  The definitions above give every method as a function from array values to array
  values. NumPy arrays are objects: a subscript assignment, an augmented assignment and an
  OpenCV call with an output argument change an existing array, and two variables can name
  the same array. This section gives the methods a second time, over a store: an array
  variable holds an address, an expression that builds an array allocates a new object,
  and a statement that changes an array in place overwrites the object at its address.
  The store is the list of all objects allocated so far, the address of an object is its
  position in the list, and the state of the random generator travels with the store.
  The contents of the arrays are computed by the functions of the sections above.
\<close>

datatype obj = U8 ndarray | F32 farray | I32 "int list"

record 'r world =
  cells :: "obj list"
  gen :: 'r

type_synonym ('r, 'a) comp = "'r world \<Rightarrow> (exn + 'a) \<times> 'r world"

definition ret :: "'a \<Rightarrow> ('r, 'a) comp" where
  "ret x w = (Inr x, w)"

definition raise :: "exn \<Rightarrow> ('r, 'a) comp" where
  "raise e w = (Inl e, w)"

definition seq :: "('r, 'a) comp \<Rightarrow> ('a \<Rightarrow> ('r, 'b) comp) \<Rightarrow> ('r, 'b) comp" where
  "seq m f w = (case m w of (Inl e, w') \<Rightarrow> (Inl e, w') | (Inr x, w') \<Rightarrow> f x w')"

text \<open>A step that computes a value, or raises, and touches no array.\<close>

definition lib :: "exn + 'a \<Rightarrow> ('r, 'a) comp" where
  "lib r w = (r, w)"

text \<open>Allocation of a new object, and allocation of the array a library call returns.\<close>

definition new :: "obj \<Rightarrow> ('r, nat) comp" where
  "new v w = (Inr (length (cells w)), w\<lparr>cells := cells w @ [v]\<rparr>)"

definition alloc_u8 :: "exn + ndarray \<Rightarrow> ('r, nat) comp" where
  "alloc_u8 r = seq (lib r) (\<lambda>v. new (U8 v))"

definition alloc_f32 :: "exn + farray \<Rightarrow> ('r, nat) comp" where
  "alloc_f32 r = seq (lib r) (\<lambda>v. new (F32 v))"

text \<open>
  Reading the array a variable names. A variable of the program always names an array of
  the kind it was bound to; the other branches keep the functions total.
\<close>

definition get_u8 :: "nat \<Rightarrow> ('r, ndarray) comp" where
  "get_u8 a w =
     (if a < length (cells w)
      then (case cells w ! a of
              U8 v \<Rightarrow> (Inr v, w)
            | _ \<Rightarrow> (Inl (TypeError ''not a uint8 array''), w))
      else (Inl (TypeError ''no such array''), w))"

definition get_f32 :: "nat \<Rightarrow> ('r, farray) comp" where
  "get_f32 a w =
     (if a < length (cells w)
      then (case cells w ! a of
              F32 v \<Rightarrow> (Inr v, w)
            | _ \<Rightarrow> (Inl (TypeError ''not a float32 array''), w))
      else (Inl (TypeError ''no such array''), w))"

definition get_i32 :: "nat \<Rightarrow> ('r, int list) comp" where
  "get_i32 a w =
     (if a < length (cells w)
      then (case cells w ! a of
              I32 v \<Rightarrow> (Inr v, w)
            | _ \<Rightarrow> (Inl (TypeError ''not an int32 array''), w))
      else (Inl (TypeError ''no such array''), w))"

text \<open>
  A statement that changes the array at address \<open>a\<close> in place: the new content is
  computed from the old one, and nothing is written when the computation raises.
\<close>

definition put :: "nat \<Rightarrow> obj \<Rightarrow> ('r, unit) comp" where
  "put a v w = (Inr (), w\<lparr>cells := (cells w)[a := v]\<rparr>)"

definition modify_u8 :: "nat \<Rightarrow> (ndarray \<Rightarrow> exn + ndarray) \<Rightarrow> ('r, unit) comp" where
  "modify_u8 a f = seq (get_u8 a) (\<lambda>v. seq (lib (f v)) (\<lambda>v'. put a (U8 v')))"

definition modify_f32 :: "nat \<Rightarrow> (farray \<Rightarrow> exn + farray) \<Rightarrow> ('r, unit) comp" where
  "modify_f32 a f = seq (get_f32 a) (\<lambda>v. seq (lib (f v)) (\<lambda>v'. put a (F32 v')))"

definition modify_i32 :: "nat \<Rightarrow> (int list \<Rightarrow> exn + int list) \<Rightarrow> ('r, unit) comp" where
  "modify_i32 a f = seq (get_i32 a) (\<lambda>v. seq (lib (f v)) (\<lambda>v'. put a (I32 v')))"

text \<open>A step that draws from the random generator.\<close>

definition with_gen :: "('r \<Rightarrow> (exn + 'a) \<times> 'r) \<Rightarrow> ('r, 'a) comp" where
  "with_gen f w = (case f (gen w) of (r, g) \<Rightarrow> (r, w\<lparr>gen := g\<rparr>))"

text \<open>
  What a method returns, over the store: the address of the result array with the
  description, or \<open>None\<close>.
\<close>

datatype hret = HTuple nat string | HNone

text \<open>
  A method whose body holds no statement that changes an array in place: every array it
  builds is new, and so is the one it returns. Over the store it reads its input and
  allocates its result (the arrays it builds on the way are not kept).
\<close>

definition lifted :: "(ndarray \<Rightarrow> exn + pyret) \<Rightarrow> nat \<Rightarrow> ('r, hret) comp" where
  "lifted f a =
     seq (get_u8 a) (\<lambda>img.
     seq (lib (f img)) (\<lambda>v.
       case v of
         NoneRet \<Rightarrow> ret HNone
       | Tuple result descr \<Rightarrow> seq (new (U8 result)) (\<lambda>p. ret (HTuple p descr))))"

subsection \<open>The methods with statements that change an array in place\<close>

text \<open>
  \<open>histogram_equalization\<close>: \<open>ycrcb[:,:,0] = cv2.equalizeHist(ycrcb[:,:,0])\<close> writes
  into \<open>ycrcb\<close>, the array \<open>cv2.cvtColor\<close> has returned.
\<close>

definition histogram_equalization_h :: "'r runtime \<Rightarrow> nat \<Rightarrow> ('r, hret) comp" where
  "histogram_equalization_h env image_p =
     seq (get_u8 image_p) (\<lambda>img.
     seq (lib (if length (shape img) = 2 then Inr True
               else if length (shape img) < 3 then Inl (IndexError ''tuple index out of range'')
               else Inr (shape img ! 2 = 1))) (\<lambda>is_gray.
     seq (if is_gray
          then seq (alloc_u8 (equalizeHist env img)) (\<lambda>result.
               seq (get_u8 result) (\<lambda>r.
                 if length (shape r) < 3 then alloc_u8 (cvtColor_GRAY2BGR r) else ret result))
          else seq (alloc_u8 (BGR2YCrCb env img)) (\<lambda>ycrcb.
               seq (modify_u8 ycrcb (\<lambda>v.
                      and_then (channel0 v) (\<lambda>y.
                      and_then (equalizeHist env y) (\<lambda>y_eq. set_channel0 v y_eq)))) (\<lambda>_.
               seq (get_u8 ycrcb) (\<lambda>v. alloc_u8 (YCrCb2BGR env v))))) (\<lambda>result.
       ret (HTuple result (nl @ ''<strong>Histogram Equalization</strong><br>'')))))"

text \<open>
  \<open>retinex\<close>: \<open>retinex += ...\<close> writes into \<open>retinex\<close>, the array
  \<open>np.zeros_like(ch)\<close> has returned.
\<close>

fun retinex_scales_h ::
  "'r runtime \<Rightarrow> farray \<Rightarrow> pyval list \<Rightarrow> nat \<Rightarrow> ('r, unit) comp" where
  "retinex_scales_h env ch [] acc_p = ret ()"
| "retinex_scales_h env ch (sigma # sigmas) acc_p =
     seq (modify_f32 acc_p (\<lambda>acc. retinex_accumulate env acc ch sigma)) (\<lambda>_.
       retinex_scales_h env ch sigmas acc_p)"

fun retinex_channels_h ::
  "'r runtime \<Rightarrow> farray \<Rightarrow> pyval \<Rightarrow> pyval \<Rightarrow> farray list \<Rightarrow> ('r, farray list) comp" where
  "retinex_channels_h env img_float sigma_list dynamic [] = ret []"
| "retinex_channels_h env img_float sigma_list dynamic (ch # chs) =
     seq (lib (py_iter sigma_list)) (\<lambda>sigmas.
     seq (new (F32 (zeros_like ch))) (\<lambda>acc_p.
     seq (retinex_scales_h env ch sigmas acc_p) (\<lambda>_.
     seq (get_f32 acc_p) (\<lambda>acc.
     seq (lib (retinex_finish env acc ch img_float (length sigmas) (truthy dynamic))) (\<lambda>r.
     seq (retinex_channels_h env img_float sigma_list dynamic chs) (\<lambda>channels.
       ret (r # channels)))))))"

definition retinex_h :: "'r runtime \<Rightarrow> nat \<Rightarrow> pyval \<Rightarrow> pyval \<Rightarrow> ('r, hret) comp" where
  "retinex_h env image_p sigma_list dynamic =
     seq (get_u8 image_p) (\<lambda>img.
     seq (new (F32 (float32_unit env img))) (\<lambda>img_float.
     seq (get_f32 img_float) (\<lambda>f.
     seq (lib (split_f32 env f)) (\<lambda>chs.
     seq (retinex_channels_h env f sigma_list dynamic chs) (\<lambda>channels.
     seq (alloc_u8 (merge_to_uint8 env channels)) (\<lambda>result.
       ret (HTuple result
         (nl @ ''<strong>Multi-Scale Retinex (MSR)</strong><br>''
          @ nl @ ''Sigma values: '' @ py_str env sigma_list @ ''<br>''
          @ nl @ ''Dynamic color restoration: ''
          @ (if truthy dynamic then ''Enabled'' else ''Disabled'') @ ''<br><br>''))))))))"

text \<open>
  \<open>frequency_filter\<close>: \<open>cv2.circle(mask, ...)\<close> draws into \<open>mask\<close>, the array
  \<open>np.zeros\<close> has returned.
\<close>

definition frequency_filter_h :: "'r runtime \<Rightarrow> nat \<Rightarrow> pyval \<Rightarrow> pyval \<Rightarrow> ('r, hret) comp" where
  "frequency_filter_h env image_p filter_type cutoff_freq =
     seq (get_u8 image_p) (\<lambda>img.
     seq (alloc_u8 (if length (shape img) = 3 then cvtColor_BGR2GRAY env img else Inr img))
       (\<lambda>gray.
     seq (get_u8 gray) (\<lambda>g.
     seq (lib (rows_cols g)) (\<lambda>size.
     seq (alloc_f32 (dft_shift env g)) (\<lambda>dft_shift_a.
     seq (get_f32 dft_shift_a) (\<lambda>spectrum.
     seq (lib (case fshape spectrum of
                 r # c # _ \<Rightarrow> Inr (r, c)
               | _ \<Rightarrow> Inl (IndexError ''tuple index out of range''))) (\<lambda>(r, c).
     seq (new (U8 \<lparr>shape = [r, c], data = replicate (r * c) 0\<rparr>)) (\<lambda>msk.
     seq (lib (is_lowpass filter_type)) (\<lambda>lowpass.
     seq (lib (int_arg ''radius'' cutoff_freq)) (\<lambda>radius.
     seq (modify_u8 msk (\<lambda>m.
            and_then (circle env (r, c) (data m) (int (c div 2), int (r div 2)) radius 1)
              (\<lambda>d. Inr (m\<lparr>data := d\<rparr>)))) (\<lambda>_.
     seq (get_u8 msk) (\<lambda>m.
     seq (if lowpass then ret msk
          else new (U8 (m\<lparr>data := map (\<lambda>v. 1 - v) (data m)\<rparr>))) (\<lambda>msk.
     seq (get_u8 msk) (\<lambda>m.
     seq (alloc_u8 (idft_normalized env spectrum (data m) size)) (\<lambda>filtered_img.
     seq (get_u8 filtered_img) (\<lambda>f.
     seq (alloc_u8 (cvtColor_GRAY2BGR f)) (\<lambda>result.
       ret HNone)))))))))))))))))"

text \<open>
  \<open>watershed\<close>: \<open>markers[unknown == 255] = 0\<close> and \<open>cv2.watershed(image, markers)\<close>
  write into \<open>markers\<close>, the array \<open>markers + 1\<close> has built; the colouring writes into
  \<open>result\<close>, which is \<open>image.copy()\<close>. On a three-channel input \<open>image\<close> still names
  the argument when \<open>cv2.watershed\<close> reads it.
\<close>

fun paint_segments_h :: "int list \<Rightarrow> uint8 list list \<Rightarrow> nat list \<Rightarrow> nat \<Rightarrow> ('r, unit) comp" where
  "paint_segments_h markers colors [] result = ret ()"
| "paint_segments_h markers colors (i # labels) result =
     seq (modify_u8 result (\<lambda>r. paint r (map (\<lambda>m. m = int i) markers) (colors ! i))) (\<lambda>_.
       paint_segments_h markers colors labels result)"

definition watershed_h :: "'r runtime \<Rightarrow> nat \<Rightarrow> ('r, hret) comp" where
  "watershed_h env image_p =
     seq (get_u8 image_p) (\<lambda>img.
     seq (if 2 < length (shape img) \<and> shape img ! 2 = 3
          then seq (alloc_u8 (cvtColor_BGR2GRAY env img)) (\<lambda>gray. ret (gray, image_p))
          else seq (new (U8 img)) (\<lambda>gray.
                 if length (shape img) < 3
                 then seq (alloc_u8 (cvtColor_GRAY2BGR img)) (\<lambda>gray_3ch. ret (gray, gray_3ch))
                 else ret (gray, image_p))) (\<lambda>(gray, image_p).
     seq (get_u8 gray) (\<lambda>g.
     seq (get_u8 image_p) (\<lambda>img3.
     seq (lib (watershed_seeds env g)) (\<lambda>(seeds, unknown).
     seq (new (I32 seeds)) (\<lambda>markers.
     seq (modify_i32 markers (\<lambda>m. clear_unknown m unknown)) (\<lambda>_.
     seq (modify_i32 markers (\<lambda>m. cv_watershed env img3 m)) (\<lambda>_.
     seq (new (U8 img3)) (\<lambda>result.
     seq (get_i32 markers) (\<lambda>labels.
       case labels of
         [] \<Rightarrow> raise (ValueError ''zero-size array to reduction operation maximum'')
       | m # ms \<Rightarrow>
           seq (with_gen (\<lambda>rng. case draw_colors env rng (nat (fold max ms m + 1)) of
                                   (colors, rng') \<Rightarrow> (Inr colors, rng'))) (\<lambda>colors.
           seq (paint_segments_h labels colors [2..<nat (fold max ms m + 1)] result) (\<lambda>_.
           seq (modify_u8 result (\<lambda>r. paint r (map (\<lambda>m. m = - 1) labels) [0, 0, 255])) (\<lambda>_.
             ret (HTuple result (nl @ ''<strong>Watershed Segmentation</strong><br>'')))))))))))))))"

text \<open>
  \<open>contour_detection\<close>: \<open>cv2.drawContours(result, ...)\<close> draws into \<open>result\<close>, which
  is \<open>image.copy()\<close> or the array \<open>cv2.cvtColor\<close> has returned.
\<close>

definition contour_detection_h :: "'r runtime \<Rightarrow> nat \<Rightarrow> pyval \<Rightarrow> pyval \<Rightarrow> ('r, hret) comp" where
  "contour_detection_h env image_p threshold_min threshold_max =
     seq (get_u8 image_p) (\<lambda>img.
     seq (alloc_u8 (to_gray env img)) (\<lambda>gray.
     seq (get_u8 gray) (\<lambda>g.
     seq (alloc_u8 (cv_threshold env g threshold_min threshold_max (IntV 0))) (\<lambda>thresh.
     seq (get_u8 thresh) (\<lambda>t.
     seq (lib (findContours env t)) (\<lambda>contours.
     seq (alloc_u8 (if length (shape img) = 3 then Inr img else cvtColor_GRAY2BGR img))
       (\<lambda>result.
     seq (modify_u8 result (\<lambda>r. drawContours env r contours)) (\<lambda>_.
       ret (HTuple result
         (nl @ ''<strong>Contour Detection</strong><br>''
          @ nl @ ''Threshold Min: '' @ py_str env threshold_min @ ''<br>''
          @ nl @ ''Threshold Max: '' @ py_str env threshold_max @ ''<br>''
          @ nl @ ''Number of contours found: '' @ str_int (int (length contours))
          @ ''<br><br>''))))))))))"

text \<open>
  \<open>add_degradation\<close>: \<open>result += noise\<close>, \<open>result[salt_mask] = 255\<close> and
  \<open>result[pepper_mask] = 0\<close> write into \<open>result\<close>, which is
  \<open>image.copy().astype(np.float32)\<close> or the array \<open>cv2.GaussianBlur\<close> has returned.
\<close>

definition add_degradation_h ::
  "'r runtime \<Rightarrow> nat \<Rightarrow> pyval \<Rightarrow> pyval \<Rightarrow> pyval \<Rightarrow> ('r, hret) comp" where
  "add_degradation_h env image_p noise_type noise_param blur_size =
     seq (get_u8 image_p) (\<lambda>img.
     seq (new (F32 \<lparr>fshape = shape img, fdata = map (\<lambda>v. of_int (uint v)) (data img)\<rparr>))
       (\<lambda>result.
     seq (lib (py_positive blur_size)) (\<lambda>blur.
     seq (if blur
          then seq (lib (ensure_odd env blur_size)) (\<lambda>blur_size.
               seq (get_f32 result) (\<lambda>r.
               seq (alloc_f32 (GaussianBlur_f32 env r (blur_size, blur_size))) (\<lambda>result.
                 ret (result, blur_size))))
          else ret (result, blur_size)) (\<lambda>(result, blur_size).
     seq (get_f32 result) (\<lambda>r.
     seq (if noise_type = StrV ''gaussian''
          then seq (with_gen (\<lambda>rng. add_normal_noise env rng r noise_param)) (\<lambda>r'.
                 put result (F32 r'))
          else if noise_type = StrV ''salt_pepper''
          then seq (lib (py_div_float env noise_param 100)) (\<lambda>amount.
               seq (with_gen (\<lambda>rng. case salt_pepper env rng r amount of
                                       (r', rng') \<Rightarrow> (Inr r', rng'))) (\<lambda>r'.
                 put result (F32 r')))
          else if noise_type = StrV ''speckle''
          then seq (with_gen (\<lambda>rng. add_speckle_noise env rng r noise_param)) (\<lambda>r'.
                 put result (F32 r'))
          else ret ()) (\<lambda>_.
     seq (get_f32 result) (\<lambda>r.
     seq (new (U8 (clip_uint8 r))) (\<lambda>result.
       ret (HTuple result
         (nl @ ''<strong>Image Degradation</strong><br>''
          @ nl @ ''Noise type: '' @ py_str env noise_type @ ''<br>''
          @ nl @ ''Noise parameter: '' @ py_str env noise_param @ ''<br>''
          @ nl @ ''Blur kernel size: ''
          @ (if py_positive blur_size = Inr True then py_str env blur_size else ''None'')
          @ ''<br><br>''))))))))))"

text \<open>
  \<open>wiener_deconvolution\<close>: \<open>psf /= psf.sum()\<close> writes into \<open>psf\<close>, the array the
  matrix product has returned.
\<close>

definition wiener_deconvolution_h ::
  "'r runtime \<Rightarrow> nat \<Rightarrow> pyval \<Rightarrow> pyval \<Rightarrow> ('r, hret) comp" where
  "wiener_deconvolution_h env image_p psf_size noise_power =
     seq (get_u8 image_p) (\<lambda>img.
     seq (alloc_u8 (to_gray env img)) (\<lambda>gray.
     seq (get_u8 gray) (\<lambda>g.
     seq (alloc_f32 (gaussian_psf env psf_size)) (\<lambda>psf.
     seq (modify_f32 psf (\<lambda>p. Inr (normalize_psf env p))) (\<lambda>_.
     seq (get_f32 psf) (\<lambda>p.
     seq (alloc_u8 (wiener_restore env g p psf_size noise_power)) (\<lambda>result.
     seq (get_u8 result) (\<lambda>r.
     seq (alloc_u8 (cvtColor_GRAY2BGR r)) (\<lambda>result_3ch.
       ret (HTuple result_3ch
         (nl @ ''<strong>Wiener Deconvolution</strong><br>''
          @ nl @ ''PSF size: '' @ py_str env psf_size @ ''x'' @ py_str env psf_size @ ''<br>''
          @ nl @ ''Noise power: '' @ py_str env noise_power @ ''<br><br>'')))))))))))"

text \<open>
  \<open>inpainting\<close>: \<open>cv2.circle(mask, ...)\<close> draws into \<open>mask\<close>, the array
  \<open>np.zeros\<close> has returned, and \<open>damaged[mask == 255] = [0, 0, 255]\<close> writes into
  \<open>damaged\<close>, which is \<open>result.copy()\<close>, where \<open>result\<close> is \<open>image.copy()\<close>.
\<close>

fun damage_mask_h ::
  "'r runtime \<Rightarrow> nat \<Rightarrow> pyval \<Rightarrow> nat \<times> nat \<Rightarrow> nat \<Rightarrow> ('r, unit) comp" where
  "damage_mask_h env 0 mask_radius hw msk = ret ()"
| "damage_mask_h env (Suc count) mask_radius hw msk =
     seq (lib (int_arg ''low'' mask_radius)) (\<lambda>radius.
     seq (with_gen (\<lambda>rng. np_randint env rng radius (int (snd hw) - radius))) (\<lambda>x.
     seq (with_gen (\<lambda>rng. np_randint env rng radius (int (fst hw) - radius))) (\<lambda>y.
     seq (modify_u8 msk (\<lambda>m. and_then (circle env hw (data m) (x, y) radius 255)
                                 (\<lambda>d. Inr (m\<lparr>data := d\<rparr>)))) (\<lambda>_.
       damage_mask_h env count mask_radius hw msk))))"

definition inpainting_h :: "'r runtime \<Rightarrow> nat \<Rightarrow> pyval \<Rightarrow> pyval \<Rightarrow> ('r, hret) comp" where
  "inpainting_h env image_p mask_radius num_points =
     seq (get_u8 image_p) (\<lambda>img.
     seq (new (U8 img)) (\<lambda>result.
     seq (new (U8 \<lparr>shape = take 2 (shape img),
                    data = replicate (prod_list (take 2 (shape img))) 0\<rparr>)) (\<lambda>msk.
     seq (lib (case shape img of
                 h # w # _ \<Rightarrow> Inr (h, w)
               | _ \<Rightarrow> Inl (ValueError (''not enough values to unpack (expected 2, got ''
                          @ str_int (int (length (shape img))) @ '')'')))) (\<lambda>hw.
     seq (lib (case num_points of
                 IntV n \<Rightarrow> Inr (nat n)
               | BoolV b \<Rightarrow> Inr (if b then 1 else 0)
               | v \<Rightarrow> Inl (TypeError (quote (type_name v)
                          @ '' object cannot be interpreted as an integer'')))) (\<lambda>count.
     seq (damage_mask_h env count mask_radius hw msk) (\<lambda>_.
     seq (get_u8 msk) (\<lambda>m.
     seq (get_u8 result) (\<lambda>r.
     seq (new (U8 r)) (\<lambda>damaged.
     seq (modify_u8 damaged (\<lambda>d. paint d (map (\<lambda>v. v = 255) (data m)) [0, 0, 255])) (\<lambda>_.
     seq (alloc_u8 (inpaint env r (data m))) (\<lambda>result.
     seq (get_u8 damaged) (\<lambda>d.
     seq (get_u8 result) (\<lambda>r.
     seq (alloc_u8 (hstack d r)) (\<lambda>display.
       ret (HTuple display
         (nl @ ''<strong>Image Inpainting</strong><br>''
          @ nl @ ''Mask radius: '' @ py_str env mask_radius @ ''<br>''
          @ nl @ ''Number of damaged areas: '' @ py_str env num_points
          @ ''<br><br>''))))))))))))))))"

subsection \<open>Dispatch and the pipeline over the store\<close>

text \<open>
  \<open>getattr(handler, op_type)(current_img, **params)\<close> over the store: the methods with
  in-place statements are the definitions above, the others only allocate.
\<close>

definition call_basic_h ::
  "'r runtime \<Rightarrow> string \<Rightarrow> nat \<Rightarrow> (string \<times> pyval) list \<Rightarrow> ('r, hret) comp" where
  "call_basic_h env name image_p kw =
     (if name = ''histogram_equalization''
      then seq (lib (check_kwargs ''BasicOperations.histogram_equalization'' [] kw)) (\<lambda>_.
             histogram_equalization_h env image_p)
      else lifted (\<lambda>img. call_basic env name img kw) image_p)"

definition call_advanced_h ::
  "'r runtime \<Rightarrow> string \<Rightarrow> nat \<Rightarrow> (string \<times> pyval) list \<Rightarrow> ('r, hret) comp" where
  "call_advanced_h env name image_p kw =
     (if name = ''retinex''
      then seq (lib (check_kwargs ''AdvancedOperations.retinex'' [''sigma_list'', ''dynamic''] kw))
             (\<lambda>_. retinex_h env image_p
                     (arg kw ''sigma_list'' (ListV [IntV 15, IntV 80, IntV 250]))
                     (arg kw ''dynamic'' (BoolV False)))
      else if name = ''frequency_filter''
      then seq (lib (check_kwargs ''AdvancedOperations.frequency_filter''
                       [''filter_type'', ''cutoff_freq''] kw)) (\<lambda>_.
             frequency_filter_h env image_p (arg kw ''filter_type'' (StrV ''lowpass''))
               (arg kw ''cutoff_freq'' (IntV 30)))
      else lifted (\<lambda>img. call_advanced env name img kw) image_p)"

definition call_segmentation_h ::
  "'r runtime \<Rightarrow> string \<Rightarrow> nat \<Rightarrow> (string \<times> pyval) list \<Rightarrow> ('r, hret) comp" where
  "call_segmentation_h env name image_p kw =
     (if name = ''watershed''
      then seq (lib (check_kwargs ''SegmentationOperations.watershed'' [] kw)) (\<lambda>_.
             watershed_h env image_p)
      else if name = ''contour_detection''
      then seq (lib (check_kwargs ''SegmentationOperations.contour_detection''
                       [''threshold_min'', ''threshold_max''] kw)) (\<lambda>_.
             contour_detection_h env image_p (arg kw ''threshold_min'' (IntV 127))
               (arg kw ''threshold_max'' (IntV 255)))
      else (\<lambda>w. lifted (\<lambda>img. fst (call_segmentation env (gen w) name img kw)) image_p w))"

definition getattr_call_h ::
  "'r runtime \<Rightarrow> handler \<Rightarrow> string \<Rightarrow> nat \<Rightarrow> (string \<times> pyval) list \<Rightarrow> ('r, hret) comp" where
  "getattr_call_h env h name image_p kw =
     (case h of
        Basic \<Rightarrow> call_basic_h env name image_p kw
      | Advanced \<Rightarrow> call_advanced_h env name image_p kw
      | Morphological \<Rightarrow> lifted (\<lambda>img. call_morphological env name img kw) image_p
      | Segmentation \<Rightarrow> call_segmentation_h env name image_p kw)"

definition run_stage_h ::
  "'r runtime \<Rightarrow> handler \<Rightarrow> string \<Rightarrow> nat \<Rightarrow> (string \<times> pyval) list
     \<Rightarrow> ('r, entry \<times> nat) comp" where
  "run_stage_h env h name current_img kw =
     seq (getattr_call_h env h name current_img kw) (\<lambda>v.
       case v of
         HNone \<Rightarrow> raise (TypeError ''cannot unpack non-iterable NoneType object'')
       | HTuple processed descr \<Rightarrow>
           seq (get_u8 processed) (\<lambda>p.
           seq (lib (png_base64 env p)) (\<lambda>img_base64.
             if length (shape p) < 2
             then raise (IndexError ''tuple index out of range'')
             else ret (\<lparr>operation = name, image_b64 = img_base64, description = descr,
                        width = shape p ! 1, height = shape p ! 0\<rparr>, processed))))"

text \<open>
  The loop: \<open>current_img = processed\<close> makes the variable name the array the stage has
  returned. The function returns the response and the address \<open>current_img\<close> holds at
  the end.
\<close>

fun run_ops_h ::
  "'r runtime \<Rightarrow> entry list \<Rightarrow> nat \<Rightarrow> request_op list \<Rightarrow> 'r world
     \<Rightarrow> (response \<times> nat) \<times> 'r world" where
  "run_ops_h env results current_img [] w = ((Success results, current_img), w)"
| "run_ops_h env results current_img (op # ops) w =
     (case resolve env (op_type op) of
        None \<Rightarrow>
          ((Failure 400 (''Unknown operation: '' @ py_str env (op_type op)), current_img), w)
      | Some (h, name) \<Rightarrow>
          (case run_stage_h env h name current_img (params op) w of
             (Inl e, w') \<Rightarrow>
               ((Failure 500 (''Error in operation '' @ name @ '': '' @ str_exn e),
                 current_img), w')
           | (Inr (result, processed), w') \<Rightarrow>
               run_ops_h env (results @ [result]) processed ops w'))"

text \<open>
  \<open>process_image\<close> over the store: \<open>img\<close> is the array \<open>cv2.imread\<close> has returned, at
  a new address, and \<open>current_img = img.copy()\<close> is another new array. The function
  returns the response, the final address in \<open>current_img\<close> and the address of \<open>img\<close>.
\<close>

definition process_image_h ::
  "'r runtime \<Rightarrow> ndarray \<Rightarrow> request_op list \<Rightarrow> 'r world
     \<Rightarrow> (response \<times> nat \<times> nat) \<times> 'r world" where
  "process_image_h env img operations w =
     (let img_p = length (cells w);
          w1 = w\<lparr>cells := cells w @ [U8 img]\<rparr>;
          current_img = length (cells w1);
          w2 = w1\<lparr>cells := cells w1 @ [U8 img]\<rparr>
      in case run_ops_h env [] current_img operations w2 of
           ((resp, final), w') \<Rightarrow> ((resp, final, img_p), w'))"

subsection \<open>What a computation leaves alone\<close>

text \<open>
  \<open>frame n m P\<close>: started in a store that holds at least \<open>n\<close> objects, the
  computation \<open>m\<close> leaves the first \<open>n\<close> objects as they are, whether it returns or
  raises, and a value it returns satisfies \<open>P\<close>.
\<close>

definition frame :: "nat \<Rightarrow> ('r, 'a) comp \<Rightarrow> ('a \<Rightarrow> bool) \<Rightarrow> bool" where
  "frame n m P =
     (\<forall>w. n \<le> length (cells w) \<longrightarrow>
        (case m w of
           (r, w') \<Rightarrow>
             n \<le> length (cells w') \<and> take n (cells w') = take n (cells w)
             \<and> (case r of Inl e \<Rightarrow> True | Inr x \<Rightarrow> P x)))"

section \<open>A concrete environment\<close>

text \<open>
  The theorems below hold for every environment. To run the model on concrete requests
  one environment is fixed here. Its interpreter entries follow CPython 3.11 where the
  model consults them (\<open>dir(object())\<close>, \<open>%\<close> on a string without a conversion
  specifier). Its random generator replays a given list of uniform draws from
  \<open>[0, 1)\<close> and yields 0 once the list is used up. Its OpenCV entries are stand-ins of the
  right shape: the luma uses the documented weights 0.114, 0.587 and 0.299, the filters
  return their input, the marker computation labels every pixel as background, and
  \<open>circle\<close> fills the disc of the given radius.
\<close>

definition join_str :: "string \<Rightarrow> string list \<Rightarrow> string" where
  "join_str sep xs = (case xs of [] \<Rightarrow> [] | x # ys \<Rightarrow> x @ concat (map (\<lambda>y. sep @ y) ys))"

definition tape_randint :: "rat list \<Rightarrow> int \<Rightarrow> int \<Rightarrow> int \<times> rat list" where
  "tape_randint rng low high =
     (case rng of [] \<Rightarrow> (low, []) | u # us \<Rightarrow> (low + \<lfloor>u * of_int (high - low)\<rfloor>, us))"

definition tape_random_sample :: "rat list \<Rightarrow> nat \<Rightarrow> rat list \<times> rat list" where
  "tape_random_sample rng n = (take n rng @ replicate (n - length rng) 0, drop n rng)"

definition disc :: "nat \<times> nat \<Rightarrow> uint8 list \<Rightarrow> int \<times> int \<Rightarrow> int \<Rightarrow> uint8 \<Rightarrow> uint8 list" where
  "disc hw msk centre radius colour =
     map (\<lambda>(i, v). if (int (i mod snd hw) - fst centre)\<^sup>2 + (int (i div snd hw) - snd centre)\<^sup>2
                       \<le> radius\<^sup>2 then colour else v)
       (zip [0..<length msk] msk)"

definition env0 :: "rat list runtime" where
  "env0 =
     \<lparr>float_str = (\<lambda>r. str_int \<lfloor>r\<rfloor> @ ''.'' @ nat_digits (nat \<lfloor>(r - of_int \<lfloor>r\<rfloor>) * 10\<rfloor>)),
      list_str = (\<lambda>vs. ''['' @ join_str '', '' (map (\<lambda>v. case v of IntV i \<Rightarrow> str_int i
                                                               | _ \<Rightarrow> ''...'') vs) @ '']''),
      str_format = (\<lambda>s v. Inl (TypeError ''not all arguments converted during string formatting'')),
      float_div = (\<lambda>a b. a / b),
      object_dir =
        [''__class__'', ''__delattr__'', ''__dir__'', ''__doc__'', ''__eq__'', ''__format__'',
         ''__ge__'', ''__getattribute__'', ''__getstate__'', ''__gt__'', ''__hash__'',
         ''__init__'', ''__init_subclass__'', ''__le__'', ''__lt__'', ''__ne__'', ''__new__'',
         ''__reduce__'', ''__reduce_ex__'', ''__repr__'', ''__setattr__'', ''__sizeof__'',
         ''__str__'', ''__subclasshook__''],
      inherited_call_error = (\<lambda>name. name @ '' does not take an image''),
      png_base64 = (\<lambda>a. Inr (join_str '','' (map (\<lambda>v. str_int (uint v)) (data a)))),
      luma = (\<lambda>b g r. word_of_int ((114 * uint b + 587 * uint g + 299 * uint r + 500) div 1000)),
      threshold_other = (\<lambda>src t m k. Inl (CvError ''Unknown threshold type'')),
      BGR2YCrCb = Inr,
      YCrCb2BGR = Inr,
      convertScaleAbs = (\<lambda>src alpha beta. Inr src),
      GaussianBlur = (\<lambda>src ksize sigma. Inr src),
      medianBlur = (\<lambda>src ksize. Inr src),
      bilateralFilter = (\<lambda>src d sigma_color sigma_space. Inr src),
      equalizeHist = Inr,
      unsharp_addWeighted = (\<lambda>src strength blurred. Inr src),
      float32_unit = (\<lambda>src. \<lparr>fshape = shape src, fdata = map (\<lambda>v. of_int (uint v) / 255) (data src)\<rparr>),
      split_f32 = (\<lambda>src. Inr [src]),
      retinex_accumulate = (\<lambda>acc ch sigma. Inr acc),
      retinex_finish = (\<lambda>acc ch img_float n dynamic. Inr ch),
      merge_to_uint8 =
        (\<lambda>chs. case chs of
                 [] \<Rightarrow> Inl (CvError ''merge: no channels'')
               | ch # _ \<Rightarrow> Inr \<lparr>shape = fshape ch,
                                 data = map (\<lambda>r. word_of_int \<lfloor>r * 255\<rfloor>) (fdata ch)\<rparr>),
      clahe_lab = (\<lambda>src clip_limit tile_grid_size. Inr src),
      clahe_apply = (\<lambda>src clip_limit tile_grid_size. Inr src),
      dft_magnitude_spectrum = Inr,
      dft_shift = (\<lambda>gray. Inr \<lparr>fshape = shape gray @ [2],
                                  fdata = concat (map (\<lambda>v. [of_int (uint v), 0]) (data gray))\<rparr>),
      idft_normalized = (\<lambda>spectrum msk size.
                           Inr \<lparr>shape = [fst size, snd size], data = take (fst size * snd size) msk\<rparr>),
      getStructuringElement = (\<lambda>code ksize. Inr \<lparr>shape = [1, 1], data = [1]\<rparr>),
      erode = (\<lambda>src kernel iterations. Inr src),
      dilate = (\<lambda>src kernel iterations. Inr src),
      morphologyEx = (\<lambda>src code kernel. Inr src),
      Canny = (\<lambda>gray threshold1 threshold2 aperture_size. Inr gray),
      sobel_combined = (\<lambda>gray dx dy ksize. Inr gray),
      watershed_seeds = (\<lambda>gray. Inr (replicate (length (data gray)) 1,
                                     replicate (length (data gray)) 0)),
      cv_watershed = (\<lambda>img markers. Inr markers),
      findContours = (\<lambda>thresh. Inr []),
      drawContours = (\<lambda>result contours. Inr result),
      orb_draw_keypoints = (\<lambda>src n_features. Inr (src, 0)),
      GaussianBlur_f32 = (\<lambda>src ksize. Inr src),
      add_normal_noise = (\<lambda>rng src noise_param. (Inr src, drop (length (fdata src)) rng)),
      add_speckle_noise = (\<lambda>rng src noise_param. (Inr src, drop (length (fdata src)) rng)),
      gaussian_psf = (\<lambda>psf_size. Inr \<lparr>fshape = [1, 1], fdata = [1]\<rparr>),
      normalize_psf = (\<lambda>psf. psf),
      wiener_restore = (\<lambda>gray psf psf_size noise_power. Inr gray),
      circle = (\<lambda>hw msk centre radius colour. Inr (disc hw msk centre radius colour)),
      inpaint = (\<lambda>src msk. Inr src),
      randint = tape_randint,
      random_sample = tape_random_sample\<rparr>"

text \<open>Two small inputs: a one-pixel colour image and a two-pixel one.\<close>

definition img1 :: ndarray where
  "img1 = \<lparr>shape = [1, 1, 3], data = [10, 20, 30]\<rparr>"


text \<open>
  A source image for the scenario: 100 by 100 pixels, three channels in the order blue,
  green, red. The pixels of the upper 50 rows are (250, 200, 100), those of the lower 50
  rows are (100, 50, 20).
\<close>

definition img_halves :: ndarray where
  "img_halves = \<lparr>shape = [100, 100, 3],
                  data = map (\<lambda>k. if k div 3 < 5000 then [250, 200, 100] ! (k mod 3)
                                   else [100, 50, 20] ! (k mod 3)) [0..<30000]\<rparr>"

text \<open>
  Requests used below: two operations that succeed, one whose transform raises (the
  kernel size is a string, so \<open>kernel_size % 2\<close> is a failing string format), the
  operation whose method returns nothing, and an attribute name that is not an operation.
\<close>

definition req_negative :: request_op where
  "req_negative = \<lparr>op_type = StrV ''negative'', params = []\<rparr>"

definition req_grayscale :: request_op where
  "req_grayscale = \<lparr>op_type = StrV ''grayscale'', params = []\<rparr>"

definition req_bad_blur :: request_op where
  "req_bad_blur = \<lparr>op_type = StrV ''gaussian_blur'', params = [(''kernel_size'', StrV ''big'')]\<rparr>"

definition req_frequency_filter :: request_op where
  "req_frequency_filter = \<lparr>op_type = StrV ''frequency_filter'', params = []\<rparr>"

definition req_doc :: request_op where
  "req_doc = \<lparr>op_type = StrV ''__doc__'', params = []\<rparr>"

section \<open>Properties\<close>

lemma negative_twice_data: "map ((\<lambda>v. 255 - v) \<circ> (\<lambda>v. 255 - v)) xs = (xs :: uint8 list)"
  by (induction xs) simp_all

text \<open>
  Claim C9. The negative transform is an involution: \<open>negative\<close> never raises, and
  applying it to its own result returns the original array, shape and samples, for every
  array.
\<close>

theorem negative_involution:
  "\<exists>r d d'. negative img = Inr (Tuple r d) \<and> negative r = Inr (Tuple img d')"
  by (simp add: negative_def negative_twice_data)

lemma ensure_odd_even: "k mod 2 = 0 \<Longrightarrow> ensure_odd env (IntV k) = Inr (IntV (k + 1))"
  by (simp add: ensure_odd_def)

lemma ensure_odd_succ: "k mod 2 = 0 \<Longrightarrow> ensure_odd env (IntV (k + 1)) = Inr (IntV (k + 1))"
  by (simp add: ensure_odd_def) presburger

text \<open>
  Claim C10. An even kernel size is rounded up to the next odd integer: for every array
  and every even integer \<open>k\<close> (in particular every even \<open>k \<ge> 2\<close>),
  \<open>gaussian_blur\<close>, \<open>median_blur\<close> and \<open>sharpen\<close> called with \<open>k\<close> return
  what they return when called with \<open>k + 1\<close>: the same array and description, or the
  same exception. The size handed to OpenCV is \<open>k + 1\<close>, which is odd, so the call is
  never refused for an even size.
\<close>

theorem even_kernel_rounded_up:
  assumes "k mod 2 = 0"
  shows "gaussian_blur env img (IntV k) sigma_x = gaussian_blur env img (IntV (k + 1)) sigma_x
       \<and> median_blur env img (IntV k) = median_blur env img (IntV (k + 1))
       \<and> sharpen env img (IntV k) strength = sharpen env img (IntV (k + 1)) strength
       \<and> ensure_odd env (IntV k) = Inr (IntV (k + 1)) \<and> (k + 1) mod 2 = 1"
  using assms
  by (simp add: gaussian_blur_def median_blur_def sharpen_def ensure_odd_even ensure_odd_succ)
     presburger

theorem even_kernel_rounded_up_witness:
  "(4::int) mod 2 = 0
   \<and> gaussian_blur env0 img1 (IntV 4) (IntV 0) = gaussian_blur env0 img1 (IntV 5) (IntV 0)
   \<and> median_blur env0 img1 (IntV 4) = median_blur env0 img1 (IntV 5)
   \<and> sharpen env0 img1 (IntV 4) (FloatV 1) = sharpen env0 img1 (IntV 5) (FloatV 1)
   \<and> ensure_odd env0 (IntV 4) = Inr (IntV 5)"
  using even_kernel_rounded_up [of 4 env0 img1 "IntV 0" "FloatV 1"] by simp

lemma length_concat_triples:
  "length (concat (map ((\<lambda>v. [v, v, v]) \<circ> f) xs)) = 3 * length xs"
  by (induction xs) simp_all

lemma set_concat_triples: "set (concat (map ((\<lambda>v. [v, v, v]) \<circ> f) xs)) = f ` set xs"
  by (induction xs) auto

lemma drop_concat_triples:
  "drop (i * 3) (concat (map (\<lambda>v. [v, v, v]) ys)) = concat (map (\<lambda>v. [v, v, v]) (drop i ys))"
proof (induction ys arbitrary: i)
  case Nil then show ?case by simp
next
  case (Cons y ys)
  show ?case
  proof (cases i)
    case 0 then show ?thesis by simp
  next
    case (Suc j)
    have "Suc j * 3 = Suc (Suc (Suc (j * 3)))" by simp
    then show ?thesis using Cons [of j] Suc by (simp del: mult_Suc)
  qed
qed

lemma pixel_concat_triples:
  assumes "i < length ys"
  shows "pixel 3 (concat (map (\<lambda>v. [v, v, v]) ys)) i = replicate 3 (ys ! i)"
proof -
  obtain z zs where d: "drop i ys = z # zs" "z = ys ! i"
    using assms by (metis Cons_nth_drop_Suc)
  have "take 3 (concat (map (\<lambda>v. [v, v, v]) (z # zs))) = replicate 3 z"
    by (simp add: numeral_3_eq_3)
  then show ?thesis
    unfolding pixel_def drop_concat_triples d(1) d(2) [symmetric] .
qed

lemma grayscale_result:
  assumes "shape img = [h, w, 3]" "0 < h * w"
  shows "grayscale env img
           = Inr (Tuple \<lparr>shape = [h, w, 3],
                         data = concat (map (\<lambda>v. [v, v, v])
                                  (map (\<lambda>i. luma_px env (pixel 3 (data img) i)) [0..<h * w]))\<rparr>
                        (nl @ ''<strong>Grayscale Conversion</strong><br>''))"
  using assms
  by (simp add: grayscale_def cvtColor_BGR2GRAY_def cvtColor_GRAY2BGR_def and_then_def)

lemma threshold_px_binary_127:
  "threshold_px 0 127 255 v = (if 127 < uint v then 255 else 0)"
  by (simp add: threshold_px_def saturate_u8_def)

lemma threshold_result:
  assumes "shape g = [h, w, 3]" "0 < h * w"
  shows "\<exists>d. threshold env g (IntV 127) (IntV 255) (IntV 0)
           = Inr (Tuple \<lparr>shape = [h, w, 3],
                         data = concat (map (\<lambda>v. [v, v, v])
                                  (map (\<lambda>i. if 127 < uint (luma_px env (pixel 3 (data g) i))
                                             then 255 else 0) [0..<h * w]))\<rparr> d)"
  using assms
  by (simp add: threshold_def cvtColor_BGR2GRAY_def cvtColor_GRAY2BGR_def and_then_def
      cv_threshold_def num_arg_def int_arg_def cvRound_def threshold_px_binary_127 comp_def)

lemma replicate_3: "replicate 3 x = [x, x, x]"
  by (simp add: numeral_3_eq_3)

lemma upt_0_3: "[0..<3] = [0, 1, 2]"
  by (simp add: upt_conv_Cons)

lemma pixel_img_halves_first: "pixel 3 (data img_halves) 0 = [250, 200, 100]"
  by (simp add: img_halves_def pixel_def take_map drop_map upt_0_3)

lemma pixel_img_halves_last: "pixel 3 (data img_halves) 9999 = [100, 50, 20]"
  by (simp add: img_halves_def pixel_def take_map drop_map)

lemma resolve_basic:
  "name \<in> set basic_methods \<Longrightarrow> resolve env (StrV name) = Some (Basic, name)"
  by (simp add: resolve_def dir_of_def)

lemma call_grayscale: "call_basic env ''grayscale'' img [] = grayscale env img"
  by (simp add: call_basic_def check_kwargs_def and_then_def)

lemma call_threshold_value:
  "call_basic env ''threshold'' img [(''threshold_value'', v)]
     = threshold env img v (IntV 255) (IntV 0)"
  by (simp add: call_basic_def check_kwargs_def and_then_def arg_def)

lemma run_stage_basic_ok:
  assumes "call_basic env name img kw = Inr (Tuple p d)" "png_base64 env p = Inr b"
    "shape p = [h, w, c]"
  shows "run_stage env rng Basic name img kw
           = (Inr (\<lparr>operation = name, image_b64 = b, description = d, width = w, height = h\<rparr>, p),
              rng)"
  using assms by (simp add: run_stage_def getattr_call_def and_then_def)

text \<open>
  Claim C8. For a 100 by 100 source image with three channels and the pipeline
  \<open>[grayscale, threshold]\<close> with threshold value 127 and the default maximum and
  type. \<open>grayscale\<close> returns a 100 by 100 array with three channels that is grey:
  the three samples of every pixel are equal, and they are the luma of that pixel of the
  source. \<open>threshold\<close>, applied to it, returns a 100 by 100 array with three channels
  whose samples are all 0 or 255, so at most two distinct values: the three samples of a
  pixel are 255 when the luma of that pixel of the grey image exceeds 127 and 0
  otherwise. In \<open>process_image\<close>, when the encoder of the response accepts these two
  arrays, the response holds the two entries, with the names, the encodings and the
  descriptions of the two stages, each of width 100 and height 100, and the working
  image ends as the thresholded array.
\<close>

theorem grayscale_threshold_scenario:
  assumes "shape img = [100, 100, 3]" "length (data img) = 30000"
  shows "\<exists>g d t d'.
           call_basic env ''grayscale'' img [] = Inr (Tuple g d)
         \<and> shape g = [100, 100, 3] \<and> length (data g) = 30000
         \<and> (\<forall>i<10000. pixel 3 (data g) i = replicate 3 (luma_px env (pixel 3 (data img) i)))
         \<and> call_basic env ''threshold'' g [(''threshold_value'', IntV 127)] = Inr (Tuple t d')
         \<and> shape t = [100, 100, 3] \<and> length (data t) = 30000
         \<and> set (data t) \<subseteq> {0, 255} \<and> card (set (data t)) \<le> 2
         \<and> (\<forall>i<10000. pixel 3 (data t) i
                = replicate 3 (if 127 < uint (luma_px env (pixel 3 (data g) i)) then 255 else 0))
         \<and> (\<forall>b1 b2. png_base64 env g = Inr b1 \<longrightarrow> png_base64 env t = Inr b2 \<longrightarrow>
                response (process_image env rng img
                           [\<lparr>op_type = StrV ''grayscale'', params = []\<rparr>,
                            \<lparr>op_type = StrV ''threshold'',
                             params = [(''threshold_value'', IntV 127)]\<rparr>])
                  = Success [\<lparr>operation = ''grayscale'', image_b64 = b1, description = d,
                               width = 100, height = 100\<rparr>,
                             \<lparr>operation = ''threshold'', image_b64 = b2, description = d',
                               width = 100, height = 100\<rparr>]
              \<and> working (process_image env rng img
                           [\<lparr>op_type = StrV ''grayscale'', params = []\<rparr>,
                            \<lparr>op_type = StrV ''threshold'',
                             params = [(''threshold_value'', IntV 127)]\<rparr>]) = t)"
proof -
  define ys where "ys = map (\<lambda>i. luma_px env (pixel 3 (data img) i)) [0..<100 * 100]"
  define g where "g = \<lparr>shape = [100, 100, 3], data = concat (map (\<lambda>v. [v, v, v]) ys)\<rparr>"
  define d where "d = nl @ ''<strong>Grayscale Conversion</strong><br>''"
  define zs where "zs = map (\<lambda>i. if 127 < uint (luma_px env (pixel 3 (data g) i))
                                   then 255 else 0 :: uint8) [0..<100 * 100]"
  define t where "t = \<lparr>shape = [100, 100, 3], data = concat (map (\<lambda>v. [v, v, v]) zs)\<rparr>"
  have ly: "length ys = 10000" and lz: "length zs = 10000"
    by (simp_all add: ys_def zs_def)
  have gr: "grayscale env img = Inr (Tuple g d)"
    using grayscale_result [of img 100 100 env] assms(1) by (simp add: g_def d_def ys_def)
  have sg: "shape g = [100, 100, 3]" by (simp add: g_def)
  obtain d' where th: "threshold env g (IntV 127) (IntV 255) (IntV 0) = Inr (Tuple t d')"
    using threshold_result [of g 100 100 env] sg by (auto simp add: t_def zs_def)
  have st: "shape t = [100, 100, 3]" by (simp add: t_def)
  have lg: "length (data g) = 30000"
    using length_concat_triples [of id ys] by (simp add: g_def ly)
  have lt: "length (data t) = 30000"
    using length_concat_triples [of id zs] by (simp add: t_def lz)
  have pg: "pixel 3 (data g) i = replicate 3 (luma_px env (pixel 3 (data img) i))"
    if "i < 10000" for i
    using that pixel_concat_triples [of i ys] by (simp add: g_def ly) (simp add: ys_def)
  have pt: "pixel 3 (data t) i
              = replicate 3 (if 127 < uint (luma_px env (pixel 3 (data g) i)) then 255 else 0)"
    if "i < 10000" for i
    using that pixel_concat_triples [of i zs] by (simp add: t_def lz) (simp add: zs_def)
  have "set zs \<subseteq> {0, 255}" by (auto simp add: zs_def)
  then have two: "set (data t) \<subseteq> {0, 255}"
    using set_concat_triples [of id zs] by (simp add: t_def)
  have card: "card (set (data t)) \<le> 2"
  proof -
    have "card (set (data t)) \<le> card {0, 255 :: uint8}"
      using two by (intro card_mono) auto
    then show ?thesis by simp
  qed
  have cg: "call_basic env ''grayscale'' img [] = Inr (Tuple g d)"
    using gr by (simp add: call_grayscale)
  have ct: "call_basic env ''threshold'' g [(''threshold_value'', IntV 127)] = Inr (Tuple t d')"
    using th by (simp add: call_threshold_value)
  have r1: "resolve env (StrV ''grayscale'') = Some (Basic, ''grayscale'')"
    by (rule resolve_basic) (simp add: basic_methods_def)
  have r2: "resolve env (StrV ''threshold'') = Some (Basic, ''threshold'')"
    by (rule resolve_basic) (simp add: basic_methods_def)
  have pipe: "response (process_image env rng img
                           [\<lparr>op_type = StrV ''grayscale'', params = []\<rparr>,
                            \<lparr>op_type = StrV ''threshold'',
                             params = [(''threshold_value'', IntV 127)]\<rparr>])
                  = Success [\<lparr>operation = ''grayscale'', image_b64 = b1, description = d,
                               width = 100, height = 100\<rparr>,
                             \<lparr>operation = ''threshold'', image_b64 = b2, description = d',
                               width = 100, height = 100\<rparr>]
              \<and> working (process_image env rng img
                           [\<lparr>op_type = StrV ''grayscale'', params = []\<rparr>,
                            \<lparr>op_type = StrV ''threshold'',
                             params = [(''threshold_value'', IntV 127)]\<rparr>]) = t"
    if b1: "png_base64 env g = Inr b1" and b2: "png_base64 env t = Inr b2" for b1 b2
    by (simp add: process_image_def r1 r2
        run_stage_basic_ok [OF cg b1 sg] run_stage_basic_ok [OF ct b2 st])
  show ?thesis
    apply (rule exI [of _ g], rule exI [of _ d], rule exI [of _ t], rule exI [of _ d'])
    apply (intro conjI allI impI)
    using cg sg lg pg ct st lt two card pt pipe by simp_all
qed

text \<open>
  The scenario on an image whose upper half is one colour and whose lower half is
  another: the first pixel has luma 176 and becomes white, the last has luma 47 and
  becomes black.
\<close>

theorem grayscale_threshold_scenario_witness:
  "shape img_halves = [100, 100, 3] \<and> length (data img_halves) = 30000
   \<and> (\<exists>g d t d' b1 b2.
           call_basic env0 ''grayscale'' img_halves [] = Inr (Tuple g d)
         \<and> call_basic env0 ''threshold'' g [(''threshold_value'', IntV 127)] = Inr (Tuple t d')
         \<and> pixel 3 (data img_halves) 0 = [250, 200, 100]
         \<and> pixel 3 (data g) 0 = [176, 176, 176]
         \<and> pixel 3 (data t) 0 = [255, 255, 255]
         \<and> pixel 3 (data img_halves) 9999 = [100, 50, 20]
         \<and> pixel 3 (data g) 9999 = [47, 47, 47]
         \<and> pixel 3 (data t) 9999 = [0, 0, 0]
         \<and> png_base64 env0 g = Inr b1 \<and> png_base64 env0 t = Inr b2
         \<and> response (process_image env0 [] img_halves
                           [\<lparr>op_type = StrV ''grayscale'', params = []\<rparr>,
                            \<lparr>op_type = StrV ''threshold'',
                             params = [(''threshold_value'', IntV 127)]\<rparr>])
                  = Success [\<lparr>operation = ''grayscale'', image_b64 = b1, description = d,
                               width = 100, height = 100\<rparr>,
                             \<lparr>operation = ''threshold'', image_b64 = b2, description = d',
                               width = 100, height = 100\<rparr>]
         \<and> working (process_image env0 [] img_halves
                           [\<lparr>op_type = StrV ''grayscale'', params = []\<rparr>,
                            \<lparr>op_type = StrV ''threshold'',
                             params = [(''threshold_value'', IntV 127)]\<rparr>]) = t)"
proof -
  have h1: "shape img_halves = [100, 100, 3]" by (simp add: img_halves_def)
  have h2: "length (data img_halves) = 30000" by (simp add: img_halves_def)
  obtain g d t d' where
    cg: "call_basic env0 ''grayscale'' img_halves [] = Inr (Tuple g d)"
    and pg: "\<forall>i<10000. pixel 3 (data g) i
               = replicate 3 (luma_px env0 (pixel 3 (data img_halves) i))"
    and ct: "call_basic env0 ''threshold'' g [(''threshold_value'', IntV 127)] = Inr (Tuple t d')"
    and pt: "\<forall>i<10000. pixel 3 (data t) i
               = replicate 3 (if 127 < uint (luma_px env0 (pixel 3 (data g) i)) then 255 else 0)"
    and pipe: "\<forall>b1 b2. png_base64 env0 g = Inr b1 \<longrightarrow> png_base64 env0 t = Inr b2 \<longrightarrow>
                response (process_image env0 [] img_halves
                           [\<lparr>op_type = StrV ''grayscale'', params = []\<rparr>,
                            \<lparr>op_type = StrV ''threshold'',
                             params = [(''threshold_value'', IntV 127)]\<rparr>])
                  = Success [\<lparr>operation = ''grayscale'', image_b64 = b1, description = d,
                               width = 100, height = 100\<rparr>,
                             \<lparr>operation = ''threshold'', image_b64 = b2, description = d',
                               width = 100, height = 100\<rparr>]
              \<and> working (process_image env0 [] img_halves
                           [\<lparr>op_type = StrV ''grayscale'', params = []\<rparr>,
                            \<lparr>op_type = StrV ''threshold'',
                             params = [(''threshold_value'', IntV 127)]\<rparr>]) = t"
    using grayscale_threshold_scenario [OF h1 h2, of env0 "[]"] by (elim exE conjE)
  have l0: "luma_px env0 [250, 200, 100] = 176" by (simp add: luma_px_def env0_def)
  have l1: "luma_px env0 [100, 50, 20] = 47" by (simp add: luma_px_def env0_def)
  have l2: "luma_px env0 [176, 176, 176] = 176" by (simp add: luma_px_def env0_def)
  have l3: "luma_px env0 [47, 47, 47] = 47" by (simp add: luma_px_def env0_def)
  have g0: "pixel 3 (data g) 0 = [176, 176, 176]"
    using pg [rule_format, of 0] by (simp add: pixel_img_halves_first l0 replicate_3)
  have g1: "pixel 3 (data g) 9999 = [47, 47, 47]"
    using pg [rule_format, of 9999] by (simp add: pixel_img_halves_last l1 replicate_3)
  have t0: "pixel 3 (data t) 0 = [255, 255, 255]"
    using pt [rule_format, of 0] by (simp add: g0 l2 replicate_3)
  have t1: "pixel 3 (data t) 9999 = [0, 0, 0]"
    using pt [rule_format, of 9999] by (simp add: g1 l3 replicate_3)
  have e1: "png_base64 env0 g = Inr (join_str '','' (map (\<lambda>v. str_int (uint v)) (data g)))"
    by (simp add: env0_def)
  have e2: "png_base64 env0 t = Inr (join_str '','' (map (\<lambda>v. str_int (uint v)) (data t)))"
    by (simp add: env0_def)
  note fin = pipe [rule_format, OF e1 e2]
  show ?thesis
    apply (intro conjI)
      apply (rule h1)
     apply (rule h2)
    apply (rule exI [of _ g], rule exI [of _ d], rule exI [of _ t], rule exI [of _ d'])
    apply (rule exI [of _ "join_str '','' (map (\<lambda>v. str_int (uint v)) (data g))"])
    apply (rule exI [of _ "join_str '','' (map (\<lambda>v. str_int (uint v)) (data t))"])
    apply (intro conjI)
    using cg ct g0 g1 t0 t1 e1 e2 fin pixel_img_halves_first pixel_img_halves_last
    by simp_all
qed

subsection \<open>The loop of \<open>process_image\<close>\<close>

lemma resolve_Some: "resolve env t = Some (h, name) \<Longrightarrow> t = StrV name"
  by (auto simp add: resolve_def split: pyval.splits if_splits)

lemma run_stage_operation:
  "run_stage env rng h name cur kw = (Inr (r, p), rng') \<Longrightarrow> operation r = name"
  by (auto simp add: run_stage_def and_then_def split: prod.splits sum.splits pyret.splits if_splits)

lemma run_ops_Success:
  "response (run_ops env rng results cur calls ops) = Success rs \<Longrightarrow>
     \<exists>new. rs = results @ new \<and> length new = length ops
        \<and> map (\<lambda>r. StrV (operation r)) new = map op_type ops
        \<and> invoked (run_ops env rng results cur calls ops) = calls @ map operation new"
proof (induction ops arbitrary: rng results cur calls)
  case Nil
  then show ?case by simp
next
  case (Cons op ops)
  show ?case
  proof (cases "resolve env (op_type op)")
    case None
    with Cons.prems show ?thesis by simp
  next
    case (Some hn)
    obtain h name where hn: "hn = (h, name)" by (cases hn)
    have ty: "op_type op = StrV name" using Some hn resolve_Some by blast
    obtain out rng' where st: "run_stage env rng h name cur (params op) = (out, rng')"
      by (cases "run_stage env rng h name cur (params op)")
    show ?thesis
    proof (cases out)
      case (Inl e)
      with Cons.prems Some hn st show ?thesis by simp
    next
      case (Inr rp)
      obtain r p where rp: "rp = (r, p)" by (cases rp)
      have opn: "operation r = name"
        by (rule run_stage_operation [of env rng h name cur "params op" r p rng'])
           (simp add: st Inr rp)
      have step: "run_ops env rng results cur calls (op # ops)
                    = run_ops env rng' (results @ [r]) p (calls @ [name]) ops"
        using Some hn st Inr rp by simp
      from Cons.prems step
      have "response (run_ops env rng' (results @ [r]) p (calls @ [name]) ops) = Success rs"
        by simp
      from Cons.IH [OF this] obtain new where new:
        "rs = (results @ [r]) @ new" "length new = length ops"
        "map (\<lambda>r. StrV (operation r)) new = map op_type ops"
        "invoked (run_ops env rng' (results @ [r]) p (calls @ [name]) ops)
           = (calls @ [name]) @ map operation new"
        by blast
      show ?thesis
        using new step ty opn by (intro exI [of _ "r # new"]) simp
    qed
  qed
qed

lemma run_ops_append:
  "run_ops env rng results cur calls (pre @ rest) =
     (case response (run_ops env rng results cur calls pre) of
        Success rs \<Rightarrow>
          run_ops env (rng_after (run_ops env rng results cur calls pre)) rs
            (working (run_ops env rng results cur calls pre))
            (invoked (run_ops env rng results cur calls pre)) rest
      | Failure st m \<Rightarrow> run_ops env rng results cur calls pre)"
proof (induction pre arbitrary: rng results cur calls)
  case Nil
  show ?case by simp
next
  case (Cons op pre)
  show ?case
  proof (cases "resolve env (op_type op)")
    case None
    then show ?thesis by simp
  next
    case (Some hn)
    obtain h name where hn: "hn = (h, name)" by (cases hn)
    obtain out rng' where stg: "run_stage env rng h name cur (params op) = (out, rng')"
      by (cases "run_stage env rng h name cur (params op)")
    show ?thesis
    proof (cases out)
      case (Inl e)
      with Some hn stg show ?thesis by simp
    next
      case (Inr rp)
      obtain r p where rp: "rp = (r, p)" by (cases rp)
      have s1: "run_ops env rng results cur calls ((op # pre) @ rest)
                  = run_ops env rng' (results @ [r]) p (calls @ [name]) (pre @ rest)"
        using Some hn stg Inr rp by simp
      have s2: "run_ops env rng results cur calls (op # pre)
                  = run_ops env rng' (results @ [r]) p (calls @ [name]) pre"
        using Some hn stg Inr rp by simp
      show ?thesis unfolding s1 s2 by (rule Cons.IH)
    qed
  qed
qed

lemma run_ops_Success_calls:
  "response (run_ops env rng results cur calls ops) = Success rs \<Longrightarrow>
     length (invoked (run_ops env rng results cur calls ops)) = length calls + length ops"
  by (drule run_ops_Success) auto

lemma process_image_snoc:
  "process_image env rng img (ops @ [op]) =
     (case response (process_image env rng img ops) of
        Success rs \<Rightarrow>
          run_ops env (rng_after (process_image env rng img ops)) rs
            (working (process_image env rng img ops))
            (invoked (process_image env rng img ops)) [op]
      | Failure st m \<Rightarrow> process_image env rng img ops)"
  unfolding process_image_def by (rule run_ops_append)

lemma process_image_at:
  assumes "i < length ops"
  shows "process_image env rng img ops =
     (case response (process_image env rng img (take i ops)) of
        Success rs \<Rightarrow>
          run_ops env (rng_after (process_image env rng img (take i ops))) rs
            (working (process_image env rng img (take i ops)))
            (invoked (process_image env rng img (take i ops))) (ops ! i # drop (Suc i) ops)
      | Failure st m \<Rightarrow> process_image env rng img (take i ops))"
proof -
  have "run_ops env rng [] img [] (take i ops @ ops ! i # drop (Suc i) ops) =
     (case response (run_ops env rng [] img [] (take i ops)) of
        Success rs \<Rightarrow>
          run_ops env (rng_after (run_ops env rng [] img [] (take i ops))) rs
            (working (run_ops env rng [] img [] (take i ops)))
            (invoked (run_ops env rng [] img [] (take i ops))) (ops ! i # drop (Suc i) ops)
      | Failure st m \<Rightarrow> run_ops env rng [] img [] (take i ops))"
    by (rule run_ops_append)
  then show ?thesis
    unfolding process_image_def using id_take_nth_drop [OF assms, symmetric] by simp
qed

lemma process_image_length:
  "response (process_image env rng img ops) = Success rs \<Longrightarrow> length rs = length ops"
  by (auto simp add: process_image_def dest: run_ops_Success)

text \<open>
  Claim C3. When the stages before stage \<open>i\<close> succeed (\<open>pre\<close> runs to completion
  and leaves the working image \<open>cur\<close>) and the body of the \<open>try\<close> block raises
  \<open>e\<close> at stage \<open>i\<close>, then whatever operations \<open>post\<close> follow, the response is
  the error alone: status 500 and the message for that operation, with none of the results
  of the earlier stages. The attributes that were called are those of the stages up to and
  including \<open>i\<close>, so no later stage is invoked.
\<close>

theorem abort_at_first_failure:
  assumes pre: "process_image env rng img pre
                  = \<lparr>response = Success rs, rng_after = rng1, invoked = cs, working = cur\<rparr>"
    and res: "resolve env (op_type op) = Some (h, name)"
    and err: "run_stage env rng1 h name cur (params op) = (Inl e, rng2)"
  shows "process_image env rng img (pre @ op # post)
           = \<lparr>response = Failure 500 (''Error in operation '' @ name @ '': '' @ str_exn e),
              rng_after = rng2, invoked = cs @ [name], working = cur\<rparr>
         \<and> length cs = length pre
         \<and> length (invoked (process_image env rng img (pre @ op # post))) = length pre + 1"
proof -
  have run: "process_image env rng img (pre @ op # post)
           = \<lparr>response = Failure 500 (''Error in operation '' @ name @ '': '' @ str_exn e),
              rng_after = rng2, invoked = cs @ [name], working = cur\<rparr>"
    using pre res err by (simp add: process_image_def run_ops_append)
  have "response (run_ops env rng [] img [] pre) = Success rs"
    using pre by (simp add: process_image_def)
  from run_ops_Success_calls [OF this]
  have "length (invoked (run_ops env rng [] img [] pre)) = length pre" by simp
  moreover have "invoked (run_ops env rng [] img [] pre) = cs"
    using pre by (simp add: process_image_def)
  ultimately have len: "length cs = length pre" by simp
  show ?thesis using run len by simp
qed

theorem abort_at_first_failure_witness:
  "process_image env0 [] img1 [req_negative]
     = \<lparr>response = Success [\<lparr>operation = ''negative'', image_b64 = ''245,235,225'',
           description = nl @ ''<strong>Negative Image</strong><br>'', width = 1, height = 1\<rparr>],
        rng_after = [], invoked = [''negative''],
        working = \<lparr>shape = [1, 1, 3], data = [245, 235, 225]\<rparr>\<rparr>
   \<and> resolve env0 (op_type req_bad_blur) = Some (Basic, ''gaussian_blur'')
   \<and> run_stage env0 [] Basic ''gaussian_blur'' \<lparr>shape = [1, 1, 3], data = [245, 235, 225]\<rparr>
         (params req_bad_blur)
       = (Inl (TypeError ''not all arguments converted during string formatting''), [])
   \<and> process_image env0 [] img1 ([req_negative] @ req_bad_blur # [req_grayscale, req_negative])
       = \<lparr>response = Failure 500 (''Error in operation '' @ ''gaussian_blur'' @ '': ''
                 @ str_exn (TypeError ''not all arguments converted during string formatting'')),
          rng_after = [], invoked = [''negative''] @ [''gaussian_blur''],
          working = \<lparr>shape = [1, 1, 3], data = [245, 235, 225]\<rparr>\<rparr>"
proof -
  have h1: "process_image env0 [] img1 [req_negative]
     = \<lparr>response = Success [\<lparr>operation = ''negative'', image_b64 = ''245,235,225'',
           description = nl @ ''<strong>Negative Image</strong><br>'', width = 1, height = 1\<rparr>],
        rng_after = [], invoked = [''negative''],
        working = \<lparr>shape = [1, 1, 3], data = [245, 235, 225]\<rparr>\<rparr>"
    by code_simp
  have h2: "resolve env0 (op_type req_bad_blur) = Some (Basic, ''gaussian_blur'')"
    by code_simp
  have h3: "run_stage env0 [] Basic ''gaussian_blur'' \<lparr>shape = [1, 1, 3], data = [245, 235, 225]\<rparr>
         (params req_bad_blur)
       = (Inl (TypeError ''not all arguments converted during string formatting''), [])"
    by code_simp
  show ?thesis
    using h1 h2 h3 abort_at_first_failure [OF h1 h2 h3, of "[req_grayscale, req_negative]"]
    by (intro conjI) simp_all
qed

text \<open>
  Claim C2, as amended. For every request exactly one of three things happens. Every
  stage succeeds: the response holds one result entry per requested operation, and for
  every \<open>i\<close> the stages before \<open>i\<close> yield the first \<open>i\<close> entries, the name of stage
  \<open>i\<close> resolves to a handler, and the body of the \<open>try\<close> block, run on the working
  image the earlier stages left, returns entry \<open>i\<close>. Or there is a first failing stage
  \<open>i\<close>, all stages before it having succeeded, whose name resolves to no handler: the
  response is status 400 with \<open>Unknown operation\<close> and that name, and nothing else. Or
  there is a first failing stage \<open>i\<close> whose name resolves and whose \<open>try\<close> block
  raises \<open>e\<close>: the response is status 500 with the operation's name and the text of
  \<open>e\<close>, and nothing else. A failure response carries none of the entries of the
  stages that succeeded.
\<close>

theorem pipeline_outcome:
  "(\<exists>rs. response (process_image env rng img ops) = Success rs \<and> length rs = length ops
       \<and> (\<forall>i<length ops. \<exists>h name p rng2.
              response (process_image env rng img (take i ops)) = Success (take i rs)
            \<and> resolve env (op_type (ops ! i)) = Some (h, name)
            \<and> run_stage env (rng_after (process_image env rng img (take i ops))) h name
                 (working (process_image env rng img (take i ops))) (params (ops ! i))
                = (Inr (rs ! i, p), rng2)))
   \<or> (\<exists>i early. i < length ops
         \<and> response (process_image env rng img (take i ops)) = Success early \<and> length early = i
         \<and> resolve env (op_type (ops ! i)) = None
         \<and> response (process_image env rng img ops)
             = Failure 400 (''Unknown operation: '' @ py_str env (op_type (ops ! i))))
   \<or> (\<exists>i early h name e rng2. i < length ops
         \<and> response (process_image env rng img (take i ops)) = Success early \<and> length early = i
         \<and> resolve env (op_type (ops ! i)) = Some (h, name)
         \<and> run_stage env (rng_after (process_image env rng img (take i ops))) h name
              (working (process_image env rng img (take i ops))) (params (ops ! i))
             = (Inl e, rng2)
         \<and> response (process_image env rng img ops)
             = Failure 500 (''Error in operation '' @ name @ '': '' @ str_exn e))"
  (is "?A ops \<or> ?B ops \<or> ?C ops")
proof (induction ops rule: rev_induct)
  case Nil
  show ?case by (simp add: process_image_def)
next
  case (snoc op ops)
  have tk: "take i (ops @ [op]) = take i ops" if "i \<le> length ops" for i
    using that by simp
  have nt: "(ops @ [op]) ! i = ops ! i" if "i < length ops" for i
    using that by (simp add: nth_append)
  from snoc.IH show ?case
  proof (elim disjE)
    assume "?A ops"
    then obtain rs where rs: "response (process_image env rng img ops) = Success rs"
        "length rs = length ops"
      and st: "\<And>i. i < length ops \<Longrightarrow> \<exists>h name p rng2.
              response (process_image env rng img (take i ops)) = Success (take i rs)
            \<and> resolve env (op_type (ops ! i)) = Some (h, name)
            \<and> run_stage env (rng_after (process_image env rng img (take i ops))) h name
                 (working (process_image env rng img (take i ops))) (params (ops ! i))
                = (Inr (rs ! i, p), rng2)"
      by auto
    show ?thesis
    proof (cases "resolve env (op_type op)")
      case None
      have "response (process_image env rng img (ops @ [op]))
              = Failure 400 (''Unknown operation: '' @ py_str env (op_type op))"
        using rs(1) None by (simp add: process_image_snoc)
      then have "?B (ops @ [op])"
        using rs None by (intro exI [of _ "length ops"] exI [of _ rs]) simp
      then show ?thesis by simp
    next
      case (Some hn)
      obtain h name where hn: "hn = (h, name)" by (cases hn)
      obtain out rng' where stg:
        "run_stage env (rng_after (process_image env rng img ops)) h name
           (working (process_image env rng img ops)) (params op) = (out, rng')"
        by (cases "run_stage env (rng_after (process_image env rng img ops)) h name
           (working (process_image env rng img ops)) (params op)")
      show ?thesis
      proof (cases out)
        case (Inl e)
        have "response (process_image env rng img (ops @ [op]))
                = Failure 500 (''Error in operation '' @ name @ '': '' @ str_exn e)"
          using rs(1) Some hn stg Inl by (simp add: process_image_snoc)
        then have "?C (ops @ [op])"
          using rs Some hn stg Inl
          by (intro exI [of _ "length ops"] exI [of _ rs] exI [of _ h] exI [of _ name]
              exI [of _ e] exI [of _ rng']) simp
        then show ?thesis by simp
      next
        case (Inr rp)
        obtain r p where rp: "rp = (r, p)" by (cases rp)
        have res: "response (process_image env rng img (ops @ [op])) = Success (rs @ [r])"
          using rs(1) Some hn stg Inr rp by (simp add: process_image_snoc)
        have each: "\<exists>h name p rng2.
              response (process_image env rng img (take i (ops @ [op])))
                = Success (take i (rs @ [r]))
            \<and> resolve env (op_type ((ops @ [op]) ! i)) = Some (h, name)
            \<and> run_stage env (rng_after (process_image env rng img (take i (ops @ [op])))) h name
                 (working (process_image env rng img (take i (ops @ [op]))))
                 (params ((ops @ [op]) ! i))
                = (Inr ((rs @ [r]) ! i, p), rng2)"
          if i: "i < length (ops @ [op])" for i
        proof (cases "i < length ops")
          case True
          then show ?thesis
            using st [OF True] rs(2) by (simp add: nth_append)
        next
          case False
          then have "i = length ops" using i by simp
          then show ?thesis
            using rs Some hn stg Inr rp by (simp add: nth_append)
        qed
        have "?A (ops @ [op])"
          using res rs(2) each by (intro exI [of _ "rs @ [r]"]) simp
        then show ?thesis by simp
      qed
    qed
  next
    assume "?B ops"
    then obtain i early where b: "i < length ops"
        "response (process_image env rng img (take i ops)) = Success early" "length early = i"
        "resolve env (op_type (ops ! i)) = None"
        "response (process_image env rng img ops)
             = Failure 400 (''Unknown operation: '' @ py_str env (op_type (ops ! i)))"
      by auto
    have "process_image env rng img (ops @ [op]) = process_image env rng img ops"
      using b(5) by (simp add: process_image_snoc)
    then have "?B (ops @ [op])"
      using b by (intro exI [of _ i] exI [of _ early]) (simp add: nth_append)
    then show ?thesis by simp
  next
    assume "?C ops"
    then obtain i early h name e rng2 where c: "i < length ops"
        "response (process_image env rng img (take i ops)) = Success early" "length early = i"
        "resolve env (op_type (ops ! i)) = Some (h, name)"
        "run_stage env (rng_after (process_image env rng img (take i ops))) h name
              (working (process_image env rng img (take i ops))) (params (ops ! i))
             = (Inl e, rng2)"
        "response (process_image env rng img ops)
             = Failure 500 (''Error in operation '' @ name @ '': '' @ str_exn e)"
      by auto
    have "process_image env rng img (ops @ [op]) = process_image env rng img ops"
      using c(6) by (simp add: process_image_snoc)
    then have "?C (ops @ [op])"
      using c
      by (intro exI [of _ i] exI [of _ early] exI [of _ h] exI [of _ name] exI [of _ e]
          exI [of _ rng2]) (simp add: nth_append)
    then show ?thesis by simp
  qed
qed


text \<open>
  The request \<open>[negative, grayscale]\<close> on a one-pixel image: both stages succeed, and
  the second entry is what the \<open>try\<close> block returns for \<open>grayscale\<close> on the working
  image the first stage left.
\<close>

theorem pipeline_outcome_witness:
  "response (process_image env0 [] img1 [req_negative, req_grayscale])
     = Success [\<lparr>operation = ''negative'', image_b64 = ''245,235,225'',
                  description = nl @ ''<strong>Negative Image</strong><br>'',
                  width = 1, height = 1\<rparr>,
                \<lparr>operation = ''grayscale'', image_b64 = ''233,233,233'',
                  description = nl @ ''<strong>Grayscale Conversion</strong><br>'',
                  width = 1, height = 1\<rparr>]
   \<and> 1 < length [req_negative, req_grayscale]
   \<and> (\<exists>h name p rng2.
         response (process_image env0 [] img1 (take 1 [req_negative, req_grayscale]))
           = Success [\<lparr>operation = ''negative'', image_b64 = ''245,235,225'',
                        description = nl @ ''<strong>Negative Image</strong><br>'',
                        width = 1, height = 1\<rparr>]
       \<and> resolve env0 (op_type ([req_negative, req_grayscale] ! 1)) = Some (h, name)
       \<and> run_stage env0
            (rng_after (process_image env0 [] img1 (take 1 [req_negative, req_grayscale])))
            h name (working (process_image env0 [] img1 (take 1 [req_negative, req_grayscale])))
            (params ([req_negative, req_grayscale] ! 1))
          = (Inr (\<lparr>operation = ''grayscale'', image_b64 = ''233,233,233'',
                    description = nl @ ''<strong>Grayscale Conversion</strong><br>'',
                    width = 1, height = 1\<rparr>, p), rng2))"
proof -
  let ?e1 = "\<lparr>operation = ''negative'', image_b64 = ''245,235,225'',
                  description = nl @ ''<strong>Negative Image</strong><br>'',
                  width = 1, height = 1\<rparr>"
  let ?e2 = "\<lparr>operation = ''grayscale'', image_b64 = ''233,233,233'',
                  description = nl @ ''<strong>Grayscale Conversion</strong><br>'',
                  width = 1, height = 1\<rparr>"
  have run: "response (process_image env0 [] img1 [req_negative, req_grayscale])
               = Success [?e1, ?e2]"
    by code_simp
  have len: "1 < length [req_negative, req_grayscale]" by simp
  show ?thesis
    using pipeline_outcome [of env0 "[]" img1 "[req_negative, req_grayscale]"]
    apply (elim disjE exE conjE)
    subgoal for rs
      apply (drule spec [of _ 1])
      using run len by auto
    subgoal using run by simp
    subgoal using run by simp
    done
qed

text \<open>
  Claim C2 as stated fails: the request \<open>[negative]\<close> completes with one entry, and the
  request \<open>[negative, gaussian_blur(kernel_size='big'), grayscale]\<close>, whose second
  stage raises, gets a response that holds the error only: neither three entries nor the
  entry of the completed first stage.
\<close>

theorem partial_results_counterexample:
  "response (process_image env0 [] img1 [req_negative])
     = Success [\<lparr>operation = ''negative'', image_b64 = ''245,235,225'',
           description = nl @ ''<strong>Negative Image</strong><br>'', width = 1, height = 1\<rparr>]
   \<and> response (process_image env0 [] img1 [req_negative, req_bad_blur, req_grayscale])
     = Failure 500 ''Error in operation gaussian_blur: not all arguments converted during string formatting''"
  by code_simp

text \<open>
  Claim C5, as amended. Whenever a stage raises, the response names the operation: if the
  stages before stage \<open>i\<close> succeed, the type of the operation at stage \<open>i\<close> resolves
  to the attribute \<open>name\<close> of a handler, and the body of the \<open>try\<close> block, run on the
  working image the earlier stages left, raises \<open>e\<close>, then the response is status 500
  with the message \<open>Error in operation <name>: <text of e>\<close>, where \<open>name\<close> is the
  type the request gave for that stage. The message is built from the name and the
  exception only; the index \<open>i\<close> does not occur in it.
\<close>

theorem error_names_operation:
  assumes "i < length ops"
    and "response (process_image env rng img (take i ops)) = Success early"
    and "resolve env (op_type (ops ! i)) = Some (h, name)"
    and "run_stage env (rng_after (process_image env rng img (take i ops))) h name
           (working (process_image env rng img (take i ops))) (params (ops ! i))
         = (Inl e, rng2)"
  shows "response (process_image env rng img ops)
           = Failure 500 (''Error in operation '' @ name @ '': '' @ str_exn e)
         \<and> op_type (ops ! i) = StrV name"
proof -
  have "response (process_image env rng img ops)
           = Failure 500 (''Error in operation '' @ name @ '': '' @ str_exn e)"
    using assms(2,3,4) by (simp add: process_image_at [OF assms(1)])
  moreover have "op_type (ops ! i) = StrV name"
    using assms(3) by (rule resolve_Some)
  ultimately show ?thesis by simp
qed

text \<open>
  The request \<open>[negative, gaussian_blur(kernel_size='big'), grayscale]\<close>: the first
  stage succeeds, the second raises, and the response names \<open>gaussian_blur\<close>.
\<close>

theorem error_names_operation_witness:
  "1 < length [req_negative, req_bad_blur, req_grayscale]
   \<and> response (process_image env0 [] img1 (take 1 [req_negative, req_bad_blur, req_grayscale]))
       = Success [\<lparr>operation = ''negative'', image_b64 = ''245,235,225'',
                    description = nl @ ''<strong>Negative Image</strong><br>'',
                    width = 1, height = 1\<rparr>]
   \<and> resolve env0 (op_type ([req_negative, req_bad_blur, req_grayscale] ! 1))
       = Some (Basic, ''gaussian_blur'')
   \<and> run_stage env0
        (rng_after (process_image env0 [] img1 (take 1 [req_negative, req_bad_blur, req_grayscale])))
        Basic ''gaussian_blur''
        (working (process_image env0 [] img1 (take 1 [req_negative, req_bad_blur, req_grayscale])))
        (params ([req_negative, req_bad_blur, req_grayscale] ! 1))
       = (Inl (TypeError ''not all arguments converted during string formatting''), [])
   \<and> response (process_image env0 [] img1 [req_negative, req_bad_blur, req_grayscale])
       = Failure 500 (''Error in operation '' @ ''gaussian_blur'' @ '': ''
           @ str_exn (TypeError ''not all arguments converted during string formatting''))
   \<and> op_type ([req_negative, req_bad_blur, req_grayscale] ! 1) = StrV ''gaussian_blur''"
proof -
  have h1: "1 < length [req_negative, req_bad_blur, req_grayscale]" by simp
  have h2: "response (process_image env0 [] img1 (take 1 [req_negative, req_bad_blur, req_grayscale]))
       = Success [\<lparr>operation = ''negative'', image_b64 = ''245,235,225'',
                    description = nl @ ''<strong>Negative Image</strong><br>'',
                    width = 1, height = 1\<rparr>]"
    by code_simp
  have h3: "resolve env0 (op_type ([req_negative, req_bad_blur, req_grayscale] ! 1))
       = Some (Basic, ''gaussian_blur'')"
    by code_simp
  have h4: "run_stage env0
        (rng_after (process_image env0 [] img1 (take 1 [req_negative, req_bad_blur, req_grayscale])))
        Basic ''gaussian_blur''
        (working (process_image env0 [] img1 (take 1 [req_negative, req_bad_blur, req_grayscale])))
        (params ([req_negative, req_bad_blur, req_grayscale] ! 1))
       = (Inl (TypeError ''not all arguments converted during string formatting''), [])"
    by code_simp
  show ?thesis
    using h1 h2 h3 h4 error_names_operation [OF h1 h2 h3 h4]
    by (intro conjI) simp_all
qed

text \<open>
  Claim C5 as stated fails: the same operation raising at stage 0, at stage 1 and at stage 2
  of three requests yields three identical responses, so the response does not carry the
  index of the failing stage.
\<close>

theorem stage_index_counterexample:
  "response (process_image env0 [] img1 [req_bad_blur])
     = Failure 500 ''Error in operation gaussian_blur: not all arguments converted during string formatting''
   \<and> response (process_image env0 [] img1 [req_negative, req_bad_blur])
     = Failure 500 ''Error in operation gaussian_blur: not all arguments converted during string formatting''
   \<and> response (process_image env0 [] img1 [req_negative, req_grayscale, req_bad_blur])
     = Failure 500 ''Error in operation gaussian_blur: not all arguments converted during string formatting''"
  by code_simp

subsection \<open>Operations that never yield a result\<close>

lemma frequency_filter_no_tuple:
  "frequency_filter env img filter_type cutoff_freq \<noteq> Inr (Tuple r d)"
  by (auto simp add: frequency_filter_def and_then_def split: sum.splits)

lemma call_frequency_filter_no_tuple:
  "call_advanced env ''frequency_filter'' img kw \<noteq> Inr (Tuple r d)"
  by (auto simp add: call_advanced_def and_then_def frequency_filter_no_tuple split: sum.splits)

lemma call_other_no_tuple: "call_other env name \<noteq> Inr v"
  by (simp add: call_other_def)

lemma getattr_frequency_filter:
  "fst (getattr_call env rng h ''frequency_filter'' img kw) \<noteq> Inr (Tuple r d)"
  by (cases h)
     (auto simp add: getattr_call_def call_basic_def call_morphological_def
        call_segmentation_def call_other_def call_frequency_filter_no_tuple)

lemma run_stage_frequency_filter:
  "\<exists>e. fst (run_stage env rng h ''frequency_filter'' img kw) = Inl e"
proof -
  obtain ret rng' where g: "getattr_call env rng h ''frequency_filter'' img kw = (ret, rng')"
    by (cases "getattr_call env rng h ''frequency_filter'' img kw")
  have nt: "ret \<noteq> Inr (Tuple r d)" for r d
    using getattr_frequency_filter [of env rng h img kw r d] g by simp
  show ?thesis
  proof (cases ret)
    case (Inl e)
    then show ?thesis using g by (simp add: run_stage_def and_then_def)
  next
    case (Inr v)
    then have "v = NoneRet" using nt by (cases v) auto
    then show ?thesis using g Inr by (simp add: run_stage_def and_then_def)
  qed
qed

lemma resolve_frequency_filter:
  "\<exists>h. resolve env (StrV ''frequency_filter'') = Some (h, ''frequency_filter'')"
  by (simp add: resolve_def dir_of_def advanced_methods_def)

text \<open>
  Claim C1 fails on the code at \<open>frequency_filter\<close>. The method never returns a pair of
  an image and a description: it raises or returns \<open>None\<close>. A request for it therefore
  always ends in a status-500 response for that operation, with any parameters, image and
  environment; in the concrete environment the cause is the failed unpacking of \<open>None\<close>.
\<close>

theorem frequency_filter_returns_nothing:
  "(\<forall>r d. frequency_filter env img filter_type cutoff_freq \<noteq> Inr (Tuple r d))
   \<and> (\<exists>cause. response (process_image env rng img
                  [\<lparr>op_type = StrV ''frequency_filter'', params = kw\<rparr>])
               = Failure 500 (''Error in operation frequency_filter: '' @ cause))
   \<and> response (process_image env0 [] img1 [req_frequency_filter])
       = Failure 500 ''Error in operation frequency_filter: cannot unpack non-iterable NoneType object''"
proof -
  obtain h where h: "resolve env (StrV ''frequency_filter'') = Some (h, ''frequency_filter'')"
    using resolve_frequency_filter by blast
  obtain out rng' where s: "run_stage env rng h ''frequency_filter'' img kw = (out, rng')"
    by (cases "run_stage env rng h ''frequency_filter'' img kw")
  obtain e where e: "out = Inl e"
    using run_stage_frequency_filter [of env rng h img kw] s by auto
  have a: "response (process_image env rng img [\<lparr>op_type = StrV ''frequency_filter'', params = kw\<rparr>])
             = Failure 500 (''Error in operation frequency_filter: '' @ str_exn e)"
    using h s e by (simp add: process_image_def)
  have b: "response (process_image env0 [] img1 [req_frequency_filter])
       = Failure 500 ''Error in operation frequency_filter: cannot unpack non-iterable NoneType object''"
    by code_simp
  show ?thesis using a b by (auto simp add: frequency_filter_no_tuple)
qed

lemma resolve_doc: "resolve env (StrV ''__doc__'') = Some (Basic, ''__doc__'')"
  by (simp add: resolve_def dir_of_def class_attrs_def)

lemma call_basic_doc:
  "call_basic env ''__doc__'' img kw
     = Inl (TypeError (quote ''str'' @ '' object is not callable''))"
  by (simp add: call_basic_def call_other_def)

text \<open>
  Claim C4 fails on the code at the name \<open>__doc__\<close>. It is not a method of any handler
  class and \<open>get_available_operations\<close> does not list it, yet \<open>process_image\<close> finds
  it in \<open>dir(basic_ops)\<close>, calls the attribute, and answers with status 500 and
  \<open>Error in operation __doc__\<close> instead of status 400 and \<open>Unknown operation\<close>.
\<close>

theorem dunder_name_is_dispatched:
  "response (process_image env rng img [\<lparr>op_type = StrV ''__doc__'', params = kw\<rparr>])
     = Failure 500 (''Error in operation __doc__: '' @ quote ''str'' @ '' object is not callable'')
   \<and> invoked (process_image env rng img [\<lparr>op_type = StrV ''__doc__'', params = kw\<rparr>])
     = [''__doc__'']
   \<and> ''__doc__'' \<notin> set (available_operations env h)
   \<and> ''__doc__'' \<notin> set (basic_methods @ advanced_methods @ morphological_methods
                              @ segmentation_methods)"
  by (simp add: process_image_def resolve_doc run_stage_def getattr_call_def call_basic_doc
      and_then_def available_operations_def basic_methods_def advanced_methods_def
      morphological_methods_def segmentation_methods_def)

subsection \<open>The random generator\<close>







subsection \<open>Allocation, in-place writes and the frame\<close>

lemma frame_ret: "P x \<Longrightarrow> frame n (ret x) P"
  by (simp add: frame_def ret_def)

lemma frame_raise: "frame n (raise e) P"
  by (simp add: frame_def raise_def)

lemma frame_lib: "frame n (lib r) (\<lambda>_. True)"
  by (simp add: frame_def lib_def split: sum.splits)

lemma frame_with_gen: "frame n (with_gen f) (\<lambda>_. True)"
  by (simp add: frame_def with_gen_def split: prod.splits sum.splits)

lemma frame_new: "frame n (new v) (\<lambda>p. n \<le> p)"
  by (simp add: frame_def new_def)

lemma frame_get_u8: "frame n (get_u8 a) (\<lambda>_. True)"
  by (simp add: frame_def get_u8_def split: obj.splits)

lemma frame_get_f32: "frame n (get_f32 a) (\<lambda>_. True)"
  by (simp add: frame_def get_f32_def split: obj.splits)

lemma frame_get_i32: "frame n (get_i32 a) (\<lambda>_. True)"
  by (simp add: frame_def get_i32_def split: obj.splits)

lemma frame_put: "n \<le> a \<Longrightarrow> frame n (put a v) (\<lambda>_. True)"
  by (simp add: frame_def put_def)

lemma frame_seq:
  assumes "frame n m Q" and "\<And>x. Q x \<Longrightarrow> frame n (f x) P"
  shows "frame n (seq m f) P"
  unfolding frame_def
proof (intro allI impI)
  fix w :: "'a world"
  assume n: "n \<le> length (cells w)"
  obtain r w1 where m: "m w = (r, w1)" by (cases "m w")
  from assms(1) n m have k1: "n \<le> length (cells w1)" "take n (cells w1) = take n (cells w)"
    and q: "case r of Inl e \<Rightarrow> True | Inr x \<Rightarrow> Q x"
    by (auto simp add: frame_def)
  show "case seq m f w of
          (r, w') \<Rightarrow> n \<le> length (cells w') \<and> take n (cells w') = take n (cells w)
             \<and> (case r of Inl e \<Rightarrow> True | Inr x \<Rightarrow> P x)"
  proof (cases r)
    case (Inl e)
    then show ?thesis using m k1 by (simp add: seq_def)
  next
    case (Inr x)
    then have "Q x" using q by simp
    from assms(2) [OF this] k1(1)
    have "case f x w1 of
          (r, w') \<Rightarrow> n \<le> length (cells w') \<and> take n (cells w') = take n (cells w1)
             \<and> (case r of Inl e \<Rightarrow> True | Inr x \<Rightarrow> P x)"
      by (simp add: frame_def)
    then show ?thesis using m Inr k1 by (auto simp add: seq_def split: prod.splits)
  qed
qed

lemma frame_weaken: "frame n m Q \<Longrightarrow> (\<And>x. Q x \<Longrightarrow> P x) \<Longrightarrow> frame n m P"
  by (fastforce simp add: frame_def split: prod.splits sum.splits)

lemma frame_any: "frame n m Q \<Longrightarrow> frame n m (\<lambda>_. True)"
  by (rule frame_weaken) simp_all

lemma frame_alloc_u8: "frame n (alloc_u8 r) (\<lambda>p. n \<le> p)"
  unfolding alloc_u8_def by (rule frame_seq [OF frame_lib frame_new])

lemma frame_alloc_f32: "frame n (alloc_f32 r) (\<lambda>p. n \<le> p)"
  unfolding alloc_f32_def by (rule frame_seq [OF frame_lib frame_new])

lemma frame_modify_u8: "n \<le> a \<Longrightarrow> frame n (modify_u8 a f) (\<lambda>_. True)"
  unfolding modify_u8_def
  by (intro frame_seq [OF frame_get_u8] frame_seq [OF frame_lib] frame_put)

lemma frame_modify_f32: "n \<le> a \<Longrightarrow> frame n (modify_f32 a f) (\<lambda>_. True)"
  unfolding modify_f32_def
  by (intro frame_seq [OF frame_get_f32] frame_seq [OF frame_lib] frame_put)

lemma frame_modify_i32: "n \<le> a \<Longrightarrow> frame n (modify_i32 a f) (\<lambda>_. True)"
  unfolding modify_i32_def
  by (intro frame_seq [OF frame_get_i32] frame_seq [OF frame_lib] frame_put)

lemma frame_lifted: "frame n (lifted f a) (\<lambda>v. \<forall>p d. v = HTuple p d \<longrightarrow> n \<le> p)"
  unfolding lifted_def
proof (intro frame_seq [OF frame_get_u8] frame_seq [OF frame_lib])
  fix img v
  show "frame n (case v of NoneRet \<Rightarrow> ret HNone
                 | Tuple result descr \<Rightarrow> seq (new (U8 result)) (\<lambda>p. ret (HTuple p descr)))
          (\<lambda>v. \<forall>p d. v = HTuple p d \<longrightarrow> n \<le> p)"
    by (cases v) (auto intro!: frame_ret frame_seq [OF frame_new])
qed

lemma frame_if:
  "(c \<Longrightarrow> frame n a P) \<Longrightarrow> (\<not> c \<Longrightarrow> frame n b P) \<Longrightarrow> frame n (if c then a else b) P"
  by simp

lemma frame_case_prod:
  "(\<And>a b. x = (a, b) \<Longrightarrow> frame n (f a b) P) \<Longrightarrow> frame n (case x of (a, b) \<Rightarrow> f a b) P"
  by (cases x) simp

lemma frame_alloc_u8_any: "frame n (alloc_u8 r) (\<lambda>_. True)"
  by (rule frame_any [OF frame_alloc_u8])

lemmas frame_steps =
  frame_seq [OF frame_get_u8] frame_seq [OF frame_get_f32] frame_seq [OF frame_get_i32]
  frame_seq [OF frame_lib] frame_seq [OF frame_with_gen] frame_seq [OF frame_new]
  frame_seq [OF frame_alloc_u8] frame_seq [OF frame_alloc_f32]
  frame_seq [OF frame_modify_u8] frame_seq [OF frame_modify_f32] frame_seq [OF frame_modify_i32]
  frame_seq [OF frame_put]
  frame_if frame_case_prod frame_raise

lemma frame_histogram_equalization_h:
  "frame n (histogram_equalization_h env a) (\<lambda>v. \<forall>p d. v = HTuple p d \<longrightarrow> n \<le> p)"
  unfolding histogram_equalization_h_def
  apply (intro frame_steps)
  apply (rule frame_seq [where Q = "\<lambda>p. n \<le> p"])
   apply (intro frame_steps frame_alloc_u8)
     apply (simp_all add: frame_ret)
  done

lemma frame_retinex_scales_h:
  "n \<le> p \<Longrightarrow> frame n (retinex_scales_h env ch sigmas p) (\<lambda>_. True)"
  by (induction sigmas) (auto intro!: frame_steps frame_ret)

lemma frame_retinex_channels_h:
  "frame n (retinex_channels_h env f sigma_list dynamic chs) (\<lambda>_. True)"
proof (induction chs)
  case Nil
  show ?case by (simp add: frame_ret)
next
  case (Cons ch chs)
  show ?case
    apply simp
    apply (intro frame_steps)
    apply (rule frame_seq [OF frame_retinex_scales_h], assumption)
    apply (intro frame_steps)
    apply (rule frame_seq [OF Cons.IH])
    apply (simp add: frame_ret)
    done
qed

lemma frame_retinex_h:
  "frame n (retinex_h env a sigma_list dynamic) (\<lambda>v. \<forall>p d. v = HTuple p d \<longrightarrow> n \<le> p)"
  unfolding retinex_h_def
  apply (intro frame_steps)
  apply (rule frame_seq [OF frame_retinex_channels_h])
  apply (intro frame_steps)
  apply (simp add: frame_ret)
  done

lemma frame_frequency_filter_h:
  "frame n (frequency_filter_h env a filter_type cutoff_freq)
     (\<lambda>v. \<forall>p d. v = HTuple p d \<longrightarrow> n \<le> p)"
  unfolding frequency_filter_h_def
  apply (intro frame_steps)
   apply assumption
  apply (rule frame_seq [where Q = "\<lambda>_. True"])
   apply (intro frame_steps frame_any [OF frame_new])
   apply (simp add: frame_ret)
  apply (intro frame_steps)
  apply (simp add: frame_ret)
  done

lemma frame_paint_segments_h:
  "n \<le> p \<Longrightarrow> frame n (paint_segments_h markers colors labels p) (\<lambda>_. True)"
  by (induction labels) (auto intro!: frame_steps frame_ret)

lemma frame_case_list:
  "frame n a P \<Longrightarrow> (\<And>x xs. frame n (f x xs) P)
     \<Longrightarrow> frame n (case l of [] \<Rightarrow> a | x # xs \<Rightarrow> f x xs) P"
  by (cases l) simp_all

lemma frame_watershed_h:
  "frame n (watershed_h env a) (\<lambda>v. \<forall>p d. v = HTuple p d \<longrightarrow> n \<le> p)"
  unfolding watershed_h_def
  apply (intro frame_steps)
  apply (rule frame_seq [where Q = "\<lambda>_. True"])
   apply (intro frame_steps)
     apply (simp_all add: frame_ret)
  apply (intro frame_steps frame_case_list)
    apply assumption
   apply assumption
  apply (rule frame_seq [OF frame_paint_segments_h], assumption)
  apply (intro frame_steps)
   apply assumption
  apply (simp add: frame_ret)
  done

lemma frame_contour_detection_h:
  "frame n (contour_detection_h env a threshold_min threshold_max)
     (\<lambda>v. \<forall>p d. v = HTuple p d \<longrightarrow> n \<le> p)"
  unfolding contour_detection_h_def
  apply (intro frame_steps)
   apply assumption
  apply (simp add: frame_ret)
  done

lemma frame_wiener_deconvolution_h:
  "frame n (wiener_deconvolution_h env a psf_size noise_power)
     (\<lambda>v. \<forall>p d. v = HTuple p d \<longrightarrow> n \<le> p)"
  unfolding wiener_deconvolution_h_def
  apply (intro frame_steps)
   apply assumption
  apply (simp add: frame_ret)
  done

lemma frame_ret_True: "frame n (ret x) (\<lambda>_. True)"
  by (rule frame_ret) simp

lemma frame_ret_tuple: "n \<le> p \<Longrightarrow> frame n (ret (HTuple p d)) (\<lambda>v. \<forall>p d. v = HTuple p d \<longrightarrow> n \<le> p)"
  by (rule frame_ret) simp

lemma frame_add_degradation_h:
  "frame n (add_degradation_h env a noise_type noise_param blur_size)
     (\<lambda>v. \<forall>p d. v = HTuple p d \<longrightarrow> n \<le> p)"
  unfolding add_degradation_h_def
  apply (intro frame_steps)
  apply (rule frame_seq [where Q = "\<lambda>(r, b). n \<le> r"])
   apply (intro frame_steps)
    apply (rule frame_ret, simp)
   apply (rule frame_ret, simp)
  apply (intro frame_steps)
  apply (rule frame_seq [where Q = "\<lambda>_. True"])
   apply (intro frame_steps frame_put frame_ret_True)
     apply simp
    apply simp
   apply simp
  apply (intro frame_steps frame_ret_tuple)
  apply assumption
  done

lemma frame_damage_mask_h:
  "n \<le> p \<Longrightarrow> frame n (damage_mask_h env count mask_radius hw p) (\<lambda>_. True)"
  by (induction count) (auto intro!: frame_steps frame_ret)

lemma frame_inpainting_h:
  "frame n (inpainting_h env a mask_radius num_points)
     (\<lambda>v. \<forall>p d. v = HTuple p d \<longrightarrow> n \<le> p)"
  unfolding inpainting_h_def
  apply (intro frame_steps)
  apply (rule frame_seq [OF frame_damage_mask_h], assumption)
  apply (intro frame_steps)
   apply assumption
  apply (simp add: frame_ret)
  done

end
